theory Spec2Isabelle
  imports Main "HOL-Library.Word" "HOL-Library.Multiset" "HOL-Library.Sublist"
begin

section \<open>Names, values and schema metadata\<close>

text \<open>
  \<^verbatim>\<open>model.CIStr\<close> is a case-insensitive name: the original spelling and its lower-case
  form. The refiner compares names through the lower-case form only.
\<close>

record CIStr =
  NameO :: string
  NameL :: string

text \<open>
  Literal values. The zero value of a datum is the null datum; \<^verbatim>\<open>types.MaxValueDatum()\<close>
  is the sentinel above every value.
\<close>

datatype Datum =
    KindNull
  | KindInt64 "64 word"
  | KindString string
  | KindMaxValue

datatype error = Error string

text \<open>
  A Go run-time panic (an index out of range) is the result \<open>None\<close> of a function of the
  model; a returned \<^verbatim>\<open>error\<close> is a value of type \<^typ>\<open>error option\<close>, where \<open>None\<close> is
  \<^verbatim>\<open>nil\<close>.
\<close>

record ColumnInfo =
  ColName :: CIStr
  ColFlag :: nat

record TableInfo =
  TblName :: CIStr
  PKIsHandle :: bool
  TblColumns :: "ColumnInfo list"

record IndexColumn =
  IdxColName :: CIStr

record IndexInfo =
  IdxColumns :: "IndexColumn list"

section \<open>The two predicate representations\<close>

text \<open>
  The operator codes of \<^verbatim>\<open>parser/opcode\<close>. The classifier distinguishes the two logical
  connectives and the six comparisons; every other operator takes the default branch.
\<close>

datatype Op =
    opAndAnd | opOrOr
  | opEQ | opNE | opGE | opGT | opLE | opLT
  | opLeftShift | opRightShift | opPlus | opMinus | opAnd | opOr | opMod | opXor
  | opDiv | opMul | opNot | opBitNeg | opIntDiv | opLogicXor | opNullEQ

text \<open>
  The older tree form, \<^verbatim>\<open>ast.ExprNode\<close>. A resolved column name carries the names of the
  table and of the column it refers to (\<^verbatim>\<open>Refer.Table.Name\<close>, \<^verbatim>\<open>Refer.Column.Name\<close>).
  Fields, in order:
  \<^item> \<open>BetweenExpr\<close>: Expr, Left, Right, Not;
  \<^item> \<open>IsNullExpr\<close>: Expr, Not;
  \<^item> \<open>IsTruthExpr\<close>: Expr, Not, True;
  \<^item> \<open>PatternInExpr\<close>: Expr, List, Not, Sel (absent when \<^verbatim>\<open>nil\<close>);
  \<^item> \<open>PatternLikeExpr\<close>: Expr, Pattern, Not.
\<close>

datatype ExprNode =
    BinaryOperationExpr Op ExprNode ExprNode
  | BetweenExpr ExprNode ExprNode ExprNode bool
  | ColumnNameExpr CIStr CIStr
  | IsNullExpr ExprNode bool
  | IsTruthExpr ExprNode bool int
  | ParenthesesExpr ExprNode
  | PatternInExpr ExprNode "ExprNode list" bool "ExprNode option"
  | PatternLikeExpr ExprNode ExprNode bool
  | UnaryOperationExpr Op ExprNode
  | ValueExpr Datum
  | FuncCallExpr string "ExprNode list"

text \<open>
  The function names of the scalar-function form are string constants of package
  \<^verbatim>\<open>ast\<close>; the classifier only switches on them, so they are the constructors of a type,
  with one constructor for every other function name.
\<close>

datatype FuncName =
    fnOrOr | fnAndAnd
  | fnEQ | fnNE | fnGE | fnGT | fnLE | fnLT
  | fnIsNull | fnIsTruth | fnIsFalsity
  | fnUnaryNot
  | fnOther string

text \<open>
  The newer form, \<^verbatim>\<open>expression.Expression\<close>: a scalar function with its name and
  arguments, a column with its table and column name, a constant, or any other
  implementation of the interface.
\<close>

datatype Expression =
    ScalarFunction FuncName "Expression list"
  | Column CIStr CIStr
  | Constant Datum
  | OtherExpression

text \<open>
  What the classifier asks of package \<^verbatim>\<open>ast\<close> and \<^verbatim>\<open>types\<close>, whose code is not part of
  the refiner: whether a node can be evaluated before execution, the value it then has
  (\<open>None\<close> for \<^verbatim>\<open>nil\<close>), and the conversion of a value to a string.
\<close>

record ast_env =
  IsPreEvaluable :: "ExprNode \<Rightarrow> bool"
  GetValue :: "ExprNode \<Rightarrow> Datum option"
  ToString :: "Datum \<Rightarrow> error + string"

section \<open>The condition checker\<close>

record conditionChecker =
  tableName :: CIStr
  idx :: "IndexInfo option"
  columnOffset :: int
  pkName :: CIStr

text \<open>Indexing a slice: out of range is a panic.\<close>

definition index_at :: "'a list \<Rightarrow> int \<Rightarrow> 'a option" where
  "index_at xs i = (if 0 \<le> i \<and> i < int (length xs) then Some (xs ! nat i) else None)"

text \<open>Go's \<^verbatim>\<open>a && b\<close>: the right operand is evaluated only when the left one is true.\<close>

definition and_also :: "bool option \<Rightarrow> bool option \<Rightarrow> bool option" where
  "and_also a b = (case a of None \<Rightarrow> None | Some False \<Rightarrow> Some False | Some True \<Rightarrow> b)"

fun checkColumnExpr :: "conditionChecker \<Rightarrow> ExprNode \<Rightarrow> bool option" where
  "checkColumnExpr c (ColumnNameExpr tbl col) =
     (if NameL tbl \<noteq> NameL (tableName c) then Some False
      else if NameL (pkName c) \<noteq> [] then Some (NameL (pkName c) = NameL col)
      else (case idx c of
              Some ix \<Rightarrow>
                (case index_at (IdxColumns ix) (columnOffset c) of
                   None \<Rightarrow> None
                 | Some ic \<Rightarrow> Some (NameL col = NameL (IdxColName ic)))
            | None \<Rightarrow> Some True))"
| "checkColumnExpr c _ = Some False"

function check :: "ast_env \<Rightarrow> conditionChecker \<Rightarrow> ExprNode \<Rightarrow> bool option"
  and checkBinaryOperation ::
    "ast_env \<Rightarrow> conditionChecker \<Rightarrow> Op \<Rightarrow> ExprNode \<Rightarrow> ExprNode \<Rightarrow> bool option" where
  "check env c (BinaryOperationExpr op l r) = checkBinaryOperation env c op l r"
| "check env c (BetweenExpr e lo hi n) =
     (if IsPreEvaluable env lo \<and> IsPreEvaluable env hi then checkColumnExpr c e
      else Some False)"
| "check env c (ColumnNameExpr tbl col) = checkColumnExpr c (ColumnNameExpr tbl col)"
| "check env c (IsNullExpr e n) = checkColumnExpr c e"
| "check env c (IsTruthExpr e n t) = checkColumnExpr c e"
| "check env c (ParenthesesExpr e) = check env c e"
| "check env c (PatternInExpr e vals n sel) =
     (if sel \<noteq> None \<or> n then Some False
      else (case checkColumnExpr c e of
              None \<Rightarrow> None
            | Some False \<Rightarrow> Some False
            | Some True \<Rightarrow> Some (list_all (IsPreEvaluable env) vals)))"
| "check env c (PatternLikeExpr e pat n) =
     (if n then Some False
      else (case checkColumnExpr c e of
              None \<Rightarrow> None
            | Some False \<Rightarrow> Some False
            | Some True \<Rightarrow>
                (if \<not> IsPreEvaluable env pat then Some False
                 else (case GetValue env pat of
                         None \<Rightarrow> Some False
                       | Some patternVal \<Rightarrow>
                           (case ToString env patternVal of
                              Inl err \<Rightarrow> Some False
                            | Inr patternStr \<Rightarrow>
                                (case index_at patternStr 0 of
                                   None \<Rightarrow> None
                                 | Some firstChar \<Rightarrow>
                                     Some (firstChar \<noteq> CHR ''%'' \<and> firstChar \<noteq> CHR ''.'')))))))"
| "check env c (UnaryOperationExpr op e) = Some False"
| "check env c (ValueExpr d) = Some False"
| "check env c (FuncCallExpr f args) = Some False"
| "checkBinaryOperation env c op l r =
     (if op = opOrOr then and_also (check env c l) (check env c r)
      else if op = opAndAnd then and_also (check env c l) (check env c r)
      else if op \<in> {opEQ, opNE, opGE, opGT, opLE, opLT} then
        (if IsPreEvaluable env l then checkColumnExpr c r
         else if IsPreEvaluable env r then checkColumnExpr c l
         else Some False)
      else Some False)"
  by pat_completeness auto
termination
  by (relation "measure (\<lambda>x. case x of
          Inl (env, c, e) \<Rightarrow> 2 * size e
        | Inr (env, c, op, l, r) \<Rightarrow> 2 * (size l + size r) + 1)") auto

fun checkColumn :: "conditionChecker \<Rightarrow> Expression \<Rightarrow> bool option" where
  "checkColumn c (Column tbl col) =
     (if NameL tbl \<noteq> NameL (tableName c) then Some False
      else if NameL (pkName c) \<noteq> [] then Some (NameL (pkName c) = NameL col)
      else (case idx c of
              Some ix \<Rightarrow>
                (case index_at (IdxColumns ix) (columnOffset c) of
                   None \<Rightarrow> None
                 | Some ic \<Rightarrow> Some (NameL col = NameL (IdxColName ic)))
            | None \<Rightarrow> Some True))"
| "checkColumn c _ = Some False"

text \<open>The type assertion of an expression to \<^verbatim>\<open>expression.Constant\<close>.\<close>

fun isConstant :: "Expression \<Rightarrow> bool" where
  "isConstant (Constant d) = True"
| "isConstant _ = False"

lemma index_at_size:
  fixes xs :: "Expression list"
  shows "index_at xs i = Some x \<Longrightarrow> size x \<le> size_list size xs"
proof -
  assume "index_at xs i = Some x"
  then have "x \<in> set xs"
    by (auto simp: index_at_def split: if_splits)
  then show ?thesis
    by (induction xs) auto
qed

function newCheck :: "conditionChecker \<Rightarrow> Expression \<Rightarrow> bool option"
  and checkScalarFunction ::
    "conditionChecker \<Rightarrow> FuncName \<Rightarrow> Expression list \<Rightarrow> bool option" where
  "newCheck c (ScalarFunction f args) = checkScalarFunction c f args"
| "newCheck c (Column tbl col) = checkColumn c (Column tbl col)"
| "newCheck c (Constant d) = Some True"
| "newCheck c OtherExpression = Some False"
| "checkScalarFunction c f args =
     (if f \<in> {fnOrOr, fnAndAnd} then
        (case index_at args 0 of
           None \<Rightarrow> None
         | Some a0 \<Rightarrow>
             (case newCheck c a0 of
                None \<Rightarrow> None
              | Some False \<Rightarrow> Some False
              | Some True \<Rightarrow>
                  (case index_at args 1 of
                     None \<Rightarrow> None
                   | Some a1 \<Rightarrow> newCheck c a1)))
      else if f \<in> {fnEQ, fnNE, fnGE, fnGT, fnLE, fnLT} then
        (case index_at args 0 of
           None \<Rightarrow> None
         | Some a0 \<Rightarrow>
             (if isConstant a0 then
                (case index_at args 1 of
                   None \<Rightarrow> None
                 | Some a1 \<Rightarrow> checkColumn c a1)
              else
                (case index_at args 1 of
                   None \<Rightarrow> None
                 | Some a1 \<Rightarrow> (if isConstant a1 then checkColumn c a0 else Some False))))
      else if f \<in> {fnIsNull, fnIsTruth, fnIsFalsity} then
        (case index_at args 0 of
           None \<Rightarrow> None
         | Some a0 \<Rightarrow> checkColumn c a0)
      else if f = fnUnaryNot then
        (case index_at args 0 of
           None \<Rightarrow> None
         | Some a0 \<Rightarrow> newCheck c a0)
      else Some False)"
  by pat_completeness auto
termination
  by (relation "measure (\<lambda>x. case x of
          Inl (c, e) \<Rightarrow> 2 * size e
        | Inr (c, f, args) \<Rightarrow> 2 * size_list size args + 1)")
     (auto dest: index_at_size)

section \<open>The predicate splitter\<close>

text \<open>
  The search for the primary-key column: the name of the first column whose flag says
  so, the zero name when there is none. \<^verbatim>\<open>mysql.HasPriKeyFlag\<close> is a parameter.
\<close>

definition zeroCIStr :: CIStr where
  "zeroCIStr = \<lparr>NameO = [], NameL = []\<rparr>"

fun findPriKey :: "(nat \<Rightarrow> bool) \<Rightarrow> ColumnInfo list \<Rightarrow> CIStr" where
  "findPriKey hasPriKeyFlag [] = zeroCIStr"
| "findPriKey hasPriKeyFlag (colInfo # cols) =
     (if hasPriKeyFlag (ColFlag colInfo) then ColName colInfo
      else findPriKey hasPriKeyFlag cols)"

definition pkNameOf :: "(nat \<Rightarrow> bool) \<Rightarrow> TableInfo \<Rightarrow> CIStr" where
  "pkNameOf hasPriKeyFlag table =
     (if PKIsHandle table then findPriKey hasPriKeyFlag (TblColumns table) else zeroCIStr)"

text \<open>
  The loop over the conditions, with the two slices it appends to. The checker is built
  and asked only when a primary-key name was found.
\<close>

fun detachLoop ::
  "CIStr \<Rightarrow> TableInfo \<Rightarrow> IndexInfo option \<Rightarrow> int \<Rightarrow> Expression list \<Rightarrow>
   Expression list \<Rightarrow> Expression list \<Rightarrow> (Expression list \<times> Expression list) option" where
  "detachLoop pk table ix colOffset [] accessConditions filterConditions =
     Some (accessConditions, filterConditions)"
| "detachLoop pk table ix colOffset (con # conditions) accessConditions filterConditions =
     (if NameL pk \<noteq> [] then
        (case newCheck \<lparr>tableName = TblName table, idx = ix, columnOffset = colOffset,
                          pkName = pk\<rparr> con of
           None \<Rightarrow> None
         | Some True \<Rightarrow>
             detachLoop pk table ix colOffset conditions (accessConditions @ [con])
               filterConditions
         | Some False \<Rightarrow>
             detachLoop pk table ix colOffset conditions accessConditions
               (filterConditions @ [con]))
      else
        detachLoop pk table ix colOffset conditions accessConditions (filterConditions @ [con]))"

definition detachConditions ::
  "(nat \<Rightarrow> bool) \<Rightarrow> Expression list \<Rightarrow> TableInfo \<Rightarrow> IndexInfo option \<Rightarrow> int \<Rightarrow>
   (Expression list \<times> Expression list) option" where
  "detachConditions hasPriKeyFlag conditions table ix colOffset =
     detachLoop (pkNameOf hasPriKeyFlag table) table ix colOffset conditions [] []"

section \<open>Ranges and the range builder\<close>

text \<open>
  A range point is one boundary of an interval; the zero value of each field is the
  null datum and \<open>False\<close>.
\<close>

record rangePoint =
  rpValue :: Datum
  rpExcl :: bool
  rpStart :: bool

record TableRange =
  LowVal :: "64 word"
  HighVal :: "64 word"

record IndexRange =
  irLowVal :: "Datum list"
  irLowExclude :: bool
  irHighVal :: "Datum list"
  irHighExclude :: bool

record rangeBuilder =
  err :: "error option"

definition fullRange :: "rangePoint list" where
  "fullRange =
     [\<lparr>rpValue = KindNull, rpExcl = False, rpStart = True\<rparr>,
      \<lparr>rpValue = KindMaxValue, rpExcl = False, rpStart = False\<rparr>]"

definition MinInt64 :: "64 word" where
  "MinInt64 = - (2 ^ 63)"

definition MaxInt64 :: "64 word" where
  "MaxInt64 = 2 ^ 63 - 1"

definition fullTableRange :: "TableRange list" where
  "fullTableRange = [\<lparr>LowVal = MinInt64, HighVal = MaxInt64\<rparr>]"

section \<open>Plans\<close>

record IndexScan =
  isAccessConditions :: "ExprNode list"
  isAccessEqualCount :: int
  isRanges :: "IndexRange list"

record TableScan =
  tsTable :: TableInfo
  tsAccessConditions :: "ExprNode list"
  tsRanges :: "TableRange list"

record NewTableScan =
  ntTable :: TableInfo
  ntRanges :: "TableRange list"
  ntAccessCondition :: "Expression list"

record Selection =
  selConditions :: "Expression list"

record Limit =
  lmOffset :: "64 word"
  lmCount :: "64 word"

text \<open>
  A plan is a node with its children; the node kinds are those \<^verbatim>\<open>refine\<close> switches on,
  and one constructor for every other kind. The plan is a tree: no node is shared, so
  mutating a node in place is returning the node updated.
\<close>

datatype Plan =
    PIndexScan IndexScan "Plan list"
  | PLimit Limit "Plan list"
  | PTableScan TableScan "Plan list"
  | PNewTableScan NewTableScan "Plan list"
  | PSelection Selection "Plan list"
  | POther "Plan list"

fun GetChildren :: "Plan \<Rightarrow> Plan list" where
  "GetChildren (PIndexScan p cs) = cs"
| "GetChildren (PLimit p cs) = cs"
| "GetChildren (PTableScan p cs) = cs"
| "GetChildren (PNewTableScan p cs) = cs"
| "GetChildren (PSelection p cs) = cs"
| "GetChildren (POther cs) = cs"

text \<open>The node with its children as the traversal left them.\<close>

fun SetChildren :: "Plan \<Rightarrow> Plan list \<Rightarrow> Plan" where
  "SetChildren (PIndexScan p cs) cs' = PIndexScan p cs'"
| "SetChildren (PLimit p cs) cs' = PLimit p cs'"
| "SetChildren (PTableScan p cs) cs' = PTableScan p cs'"
| "SetChildren (PNewTableScan p cs) cs' = PNewTableScan p cs'"
| "SetChildren (PSelection p cs) cs' = PSelection p cs'"
| "SetChildren (POther cs) cs' = POther cs'"

text \<open>
  What the refiner calls and does not define: the methods of the range builder, each
  reading and writing the builder's \<^verbatim>\<open>err\<close>; \<^verbatim>\<open>mysql.HasPriKeyFlag\<close>; and
  \<^verbatim>\<open>Limit.SetLimit\<close>, which acts on the limit node.
\<close>

record externals =
  build :: "ExprNode \<Rightarrow> rangeBuilder \<Rightarrow> rangePoint list \<times> rangeBuilder"
  newBuild :: "Expression \<Rightarrow> rangeBuilder \<Rightarrow> rangePoint list \<times> rangeBuilder"
  intersection ::
    "rangePoint list \<Rightarrow> rangePoint list \<Rightarrow> rangeBuilder \<Rightarrow> rangePoint list \<times> rangeBuilder"
  buildIndexRanges :: "rangePoint list \<Rightarrow> rangeBuilder \<Rightarrow> IndexRange list \<times> rangeBuilder"
  appendIndexRanges ::
    "IndexRange list \<Rightarrow> rangePoint list \<Rightarrow> rangeBuilder \<Rightarrow> IndexRange list \<times> rangeBuilder"
  buildTableRanges :: "rangePoint list \<Rightarrow> rangeBuilder \<Rightarrow> TableRange list \<times> rangeBuilder"
  HasPriKeyFlag :: "nat \<Rightarrow> bool"
  SetLimit :: "Plan \<Rightarrow> int \<Rightarrow> Plan"

section \<open>Building the ranges of a node\<close>

text \<open>The loop \<^verbatim>\<open>for i := 1; i < p.AccessEqualCount; i++\<close> of \<^verbatim>\<open>buildIndexRange\<close>.\<close>

function equalLoop ::
  "externals \<Rightarrow> ExprNode list \<Rightarrow> int \<Rightarrow> int \<Rightarrow> IndexRange list \<times> rangeBuilder \<Rightarrow>
   (IndexRange list \<times> rangeBuilder) option" where
  "equalLoop x conds k i (ranges, rb) =
     (if i < k then
        (case index_at conds i of
           None \<Rightarrow> None
         | Some cond \<Rightarrow>
             (case build x cond rb of
                (point, rb1) \<Rightarrow> equalLoop x conds k (i + 1) (appendIndexRanges x ranges point rb1)))
      else Some (ranges, rb))"
  by pat_completeness auto
termination
  by (relation "measure (\<lambda>(x, conds, k, i, s). nat (k - i))") auto

declare equalLoop.simps [simp del]

text \<open>The loop \<^verbatim>\<open>for i := p.AccessEqualCount; i < len(p.AccessConditions); i++\<close>.\<close>

function nonEqualLoop ::
  "externals \<Rightarrow> ExprNode list \<Rightarrow> int \<Rightarrow> rangePoint list \<times> rangeBuilder \<Rightarrow>
   (rangePoint list \<times> rangeBuilder) option" where
  "nonEqualLoop x conds i (rangePoints, rb) =
     (if i < int (length conds) then
        (case index_at conds i of
           None \<Rightarrow> None
         | Some cond \<Rightarrow>
             (case build x cond rb of
                (point, rb1) \<Rightarrow> nonEqualLoop x conds (i + 1) (intersection x rangePoints point rb1)))
      else Some (rangePoints, rb))"
  by pat_completeness auto
termination
  by (relation "measure (\<lambda>(x, conds, i, s). nat (int (length conds) - i))") auto

declare nonEqualLoop.simps [simp del]

definition buildIndexRange :: "externals \<Rightarrow> IndexScan \<Rightarrow> (IndexScan \<times> error option) option" where
  "buildIndexRange x p =
     (let rb = \<lparr>err = None\<rparr>;
          conds = isAccessConditions p;
          k = isAccessEqualCount p
      in case (if k > 0 then
                 (case index_at conds 0 of
                    None \<Rightarrow> None
                  | Some cond \<Rightarrow>
                      (case build x cond rb of
                         (point, rb1) \<Rightarrow> equalLoop x conds k 1 (buildIndexRanges x point rb1)))
               else Some (isRanges p, rb)) of
           None \<Rightarrow> None
         | Some (ranges, rb2) \<Rightarrow>
             (case nonEqualLoop x conds k (fullRange, rb2) of
                None \<Rightarrow> None
              | Some (rangePoints, rb3) \<Rightarrow>
                  (case (if k = 0 then buildIndexRanges x rangePoints rb3
                         else if k < int (length conds) then
                           appendIndexRanges x ranges rangePoints rb3
                         else (ranges, rb3)) of
                     (ranges', rb4) \<Rightarrow> Some (p\<lparr>isRanges := ranges'\<rparr>, err rb4))))"

text \<open>The loop \<^verbatim>\<open>for _, cond := range p.AccessConditions\<close> of \<^verbatim>\<open>buildTableRange\<close>.\<close>

fun tableLoop ::
  "externals \<Rightarrow> ExprNode list \<Rightarrow> rangePoint list \<times> rangeBuilder \<Rightarrow>
   rangePoint list \<times> rangeBuilder" where
  "tableLoop x [] (rangePoints, rb) = (rangePoints, rb)"
| "tableLoop x (cond # conds) (rangePoints, rb) =
     (case build x cond rb of
        (point, rb1) \<Rightarrow> tableLoop x conds (intersection x rangePoints point rb1))"

definition buildTableRange :: "externals \<Rightarrow> TableScan \<Rightarrow> TableScan \<times> error option" where
  "buildTableRange x p =
     (if length (tsAccessConditions p) = 0 then (p\<lparr>tsRanges := fullTableRange\<rparr>, None)
      else
        (case tableLoop x (tsAccessConditions p) (fullRange, \<lparr>err = None\<rparr>) of
           (rangePoints, rb) \<Rightarrow>
             (case buildTableRanges x rangePoints rb of
                (ranges, rb') \<Rightarrow> (p\<lparr>tsRanges := ranges\<rparr>, err rb'))))"

text \<open>
  The loop of \<^verbatim>\<open>buildNewTableRange\<close>, which returns the builder's error as soon as one
  condition has set it.
\<close>

fun newTableLoop ::
  "externals \<Rightarrow> Expression list \<Rightarrow> rangePoint list \<times> rangeBuilder \<Rightarrow>
   error + rangePoint list \<times> rangeBuilder" where
  "newTableLoop x [] (rangePoints, rb) = Inr (rangePoints, rb)"
| "newTableLoop x (cond # conds) (rangePoints, rb) =
     (case newBuild x cond rb of
        (point, rb1) \<Rightarrow>
          (case intersection x rangePoints point rb1 of
             (rangePoints', rb2) \<Rightarrow>
               (case err rb2 of
                  Some e \<Rightarrow> Inl e
                | None \<Rightarrow> newTableLoop x conds (rangePoints', rb2))))"

definition buildNewTableRange ::
  "externals \<Rightarrow> NewTableScan \<Rightarrow> Expression list \<Rightarrow> NewTableScan \<times> error option" where
  "buildNewTableRange x p accessConditions =
     (if length accessConditions = 0 then (p\<lparr>ntRanges := fullTableRange\<rparr>, None)
      else
        (case newTableLoop x accessConditions (fullRange, \<lparr>err = None\<rparr>) of
           Inl e \<Rightarrow> (p\<lparr>ntAccessCondition := accessConditions\<rparr>, Some e)
         | Inr (rangePoints, rb) \<Rightarrow>
             (case buildTableRanges x rangePoints rb of
                (ranges, rb') \<Rightarrow>
                  (p\<lparr>ntAccessCondition := accessConditions, ntRanges := ranges\<rparr>, err rb'))))"

text \<open>
  \<^verbatim>\<open>buildSelection\<close> looks at the first child of the selection, and acts when it is a
  \<^verbatim>\<open>NewTableScan\<close>: the selection keeps the filter conditions, the scan gets the ranges of
  the access conditions. A selection without a child has no scan beneath it.
\<close>

fun buildSelection :: "externals \<Rightarrow> Selection \<Rightarrow> Plan list \<Rightarrow> (Plan \<times> error option) option" where
  "buildSelection x p (PNewTableScan tableScan cs # rest) =
     (case detachConditions (HasPriKeyFlag x) (selConditions p) (ntTable tableScan) None 0 of
        None \<Rightarrow> None
      | Some (accessConditions, filterConditions) \<Rightarrow>
          (case buildNewTableRange x tableScan accessConditions of
             (tableScan', e) \<Rightarrow>
               Some (PSelection (p\<lparr>selConditions := filterConditions\<rparr>)
                       (PNewTableScan tableScan' cs # rest), e)))"
| "buildSelection x p children = Some (PSelection p children, None)"

section \<open>The traversal\<close>

text \<open>The switch of \<^verbatim>\<open>refine\<close> on the kind of the node, its children already refined.\<close>

fun refineNode :: "externals \<Rightarrow> Plan \<Rightarrow> (Plan \<times> error option) option" where
  "refineNode x (PIndexScan p cs) =
     (case buildIndexRange x p of
        None \<Rightarrow> None
      | Some (p', e) \<Rightarrow> Some (PIndexScan p' cs, e))"
| "refineNode x (PLimit p cs) = Some (SetLimit x (PLimit p cs) 0, None)"
| "refineNode x (PTableScan p cs) =
     (case buildTableRange x p of (p', e) \<Rightarrow> Some (PTableScan p' cs, e))"
| "refineNode x (PNewTableScan p cs) =
     Some (PNewTableScan (p\<lparr>ntRanges := fullTableRange\<rparr>) cs, None)"
| "refineNode x (PSelection p cs) = buildSelection x p cs"
| "refineNode x (POther cs) = Some (POther cs, None)"

lemma size_GetChildren: "Suc (2 * size_list size (GetChildren p)) < 2 * size p"
  by (cases p) simp_all

text \<open>
  \<^verbatim>\<open>refine\<close>: the children in order, stopping at the first error, then the node itself.
  \<^verbatim>\<open>errors.Trace\<close> only annotates the error it passes on, and is left out.
\<close>

function refine :: "externals \<Rightarrow> Plan \<Rightarrow> (Plan \<times> error option) option"
  and refineChildren :: "externals \<Rightarrow> Plan list \<Rightarrow> (Plan list \<times> error option) option" where
  "refine x p =
     (case refineChildren x (GetChildren p) of
        None \<Rightarrow> None
      | Some (cs, Some e) \<Rightarrow> Some (SetChildren p cs, Some e)
      | Some (cs, None) \<Rightarrow> refineNode x (SetChildren p cs))"
| "refineChildren x [] = Some ([], None)"
| "refineChildren x (c # cs) =
     (case refine x c of
        None \<Rightarrow> None
      | Some (c', Some e) \<Rightarrow> Some (c' # cs, Some e)
      | Some (c', None) \<Rightarrow>
          (case refineChildren x cs of
             None \<Rightarrow> None
           | Some (cs', r) \<Rightarrow> Some (c' # cs', r)))"
  by pat_completeness auto
termination
  by (relation "measure (\<lambda>v. case v of
          Inl (x, p) \<Rightarrow> 2 * size p
        | Inr (x, cs) \<Rightarrow> 2 * size_list size cs + 1)")
     (auto simp: size_GetChildren)

declare refine.simps [simp del]

definition Refine :: "externals \<Rightarrow> Plan \<Rightarrow> (Plan \<times> error option) option" where
  "Refine x p = refine x p"

section \<open>Notions the properties are stated with\<close>

subsection \<open>A concrete environment and schema\<close>

text \<open>
  For evaluation at concrete inputs: the environment in which exactly the literal nodes
  are pre-evaluable, a literal's value is its datum (\<^verbatim>\<open>nil\<close> for the null datum), and
  a string datum converts to itself. The sample table \<open>t\<close> has the columns \<open>b\<close> and
  \<open>id\<close>, the second flagged as primary key (bit 1 of the flag).
\<close>

fun isValueExpr :: "ExprNode \<Rightarrow> bool" where
  "isValueExpr (ValueExpr d) = True"
| "isValueExpr _ = False"

fun valueOf :: "ExprNode \<Rightarrow> Datum option" where
  "valueOf (ValueExpr KindNull) = None"
| "valueOf (ValueExpr d) = Some d"
| "valueOf _ = None"

fun stringOf :: "Datum \<Rightarrow> error + string" where
  "stringOf (KindString s) = Inr s"
| "stringOf _ = Inl (Error ''cannot convert to string'')"

definition literalEnv :: ast_env where
  "literalEnv = \<lparr>IsPreEvaluable = isValueExpr, GetValue = valueOf, ToString = stringOf\<rparr>"

definition tName :: CIStr where "tName = \<lparr>NameO = ''T'', NameL = ''t''\<rparr>"

definition idName :: CIStr where "idName = \<lparr>NameO = ''ID'', NameL = ''id''\<rparr>"

definition bName :: CIStr where "bName = \<lparr>NameO = ''b'', NameL = ''b''\<rparr>"

definition pkChecker :: conditionChecker where
  "pkChecker = \<lparr>tableName = tName, idx = None, columnOffset = 0, pkName = idName\<rparr>"

definition priKeyBit :: "nat \<Rightarrow> bool" where
  "priKeyBit flag = odd (flag div 2)"

definition sampleTable :: TableInfo where
  "sampleTable = \<lparr>TblName = tName, PKIsHandle = True,
     TblColumns = [\<lparr>ColName = bName, ColFlag = 0\<rparr>, \<lparr>ColName = idName, ColFlag = 3\<rparr>]\<rparr>"

definition sampleConditions :: "Expression list" where
  "sampleConditions =
     [ScalarFunction fnGT [Column tName bName, Constant (KindInt64 1)],
      ScalarFunction fnEQ [Column tName idName, Constant (KindInt64 5)],
      ScalarFunction (fnOther ''length'') [Column tName idName],
      ScalarFunction fnLE [Constant (KindInt64 9), Column tName idName]]"

subsection \<open>The target of a checker\<close>

text \<open>
  A checker has a target when it names a primary key, or an index and an offset into
  the index's columns. An expression refers to the target when it is a plain column
  whose table is the checker's table and whose column is the target column.
\<close>

definition validTarget :: "conditionChecker \<Rightarrow> bool" where
  "validTarget c =
     (NameL (pkName c) \<noteq> [] \<or>
      (case idx c of
         None \<Rightarrow> False
       | Some ix \<Rightarrow> 0 \<le> columnOffset c \<and> columnOffset c < int (length (IdxColumns ix))))"

definition targetColumn :: "conditionChecker \<Rightarrow> string" where
  "targetColumn c =
     (if NameL (pkName c) \<noteq> [] then NameL (pkName c)
      else (case idx c of
              None \<Rightarrow> []
            | Some ix \<Rightarrow>
                (case index_at (IdxColumns ix) (columnOffset c) of
                   None \<Rightarrow> []
                 | Some ic \<Rightarrow> NameL (IdxColName ic))))"

fun refersToTarget :: "conditionChecker \<Rightarrow> ExprNode \<Rightarrow> bool" where
  "refersToTarget c (ColumnNameExpr tbl col) =
     (NameL tbl = NameL (tableName c) \<and> NameL col = targetColumn c)"
| "refersToTarget c _ = False"

fun newRefersToTarget :: "conditionChecker \<Rightarrow> Expression \<Rightarrow> bool" where
  "newRefersToTarget c (Column tbl col) =
     (NameL tbl = NameL (tableName c) \<and> NameL col = targetColumn c)"
| "newRefersToTarget c _ = False"

text \<open>The wildcards of SQL's \<^verbatim>\<open>LIKE\<close>: any sequence of characters, and any one character.\<close>

definition likeWildcard :: "char \<Rightarrow> bool" where
  "likeWildcard ch = (ch = CHR ''%'' \<or> ch = CHR ''_'')"

subsection \<open>The same predicate in both representations\<close>

text \<open>
  The scalar-function form of a tree-form predicate, for the predicates both classifiers
  decide by the same rules: conjunctions and disjunctions of such predicates,
  comparisons of plain columns and literals, a plain column, and \<^verbatim>\<open>IS [NOT] NULL\<close>,
  \<^verbatim>\<open>IS [NOT] TRUE\<close> and \<^verbatim>\<open>IS [NOT] FALSE\<close> of a plain column or a literal. A binary
  operation becomes the function of the same name on the two operands, a column a
  column, a literal a constant, and a negated test the function \<^verbatim>\<open>not\<close> of the test.
  Every other predicate has no scalar form here.
\<close>

fun opFuncName :: "Op \<Rightarrow> FuncName option" where
  "opFuncName opAndAnd = Some fnAndAnd"
| "opFuncName opOrOr = Some fnOrOr"
| "opFuncName opEQ = Some fnEQ"
| "opFuncName opNE = Some fnNE"
| "opFuncName opGE = Some fnGE"
| "opFuncName opGT = Some fnGT"
| "opFuncName opLE = Some fnLE"
| "opFuncName opLT = Some fnLT"
| "opFuncName _ = None"

fun operandForm :: "ExprNode \<Rightarrow> Expression option" where
  "operandForm (ColumnNameExpr tbl col) = Some (Column tbl col)"
| "operandForm (ValueExpr d) = Some (Constant d)"
| "operandForm _ = None"

definition negated :: "bool \<Rightarrow> Expression \<Rightarrow> Expression" where
  "negated n x = (if n then ScalarFunction fnUnaryNot [x] else x)"

fun scalarForm :: "ExprNode \<Rightarrow> Expression option" where
  "scalarForm (BinaryOperationExpr op l r) =
     (if op \<in> {opAndAnd, opOrOr} then
        (case (opFuncName op, scalarForm l, scalarForm r) of
           (Some f, Some x, Some y) \<Rightarrow> Some (ScalarFunction f [x, y])
         | _ \<Rightarrow> None)
      else
        (case (opFuncName op, operandForm l, operandForm r) of
           (Some f, Some x, Some y) \<Rightarrow> Some (ScalarFunction f [x, y])
         | _ \<Rightarrow> None))"
| "scalarForm (ColumnNameExpr tbl col) = Some (Column tbl col)"
| "scalarForm (IsNullExpr e n) =
     (case operandForm e of
        Some x \<Rightarrow> Some (negated n (ScalarFunction fnIsNull [x]))
      | None \<Rightarrow> None)"
| "scalarForm (IsTruthExpr e n t) =
     (case operandForm e of
        Some x \<Rightarrow> Some (negated n (ScalarFunction (if t = 0 then fnIsFalsity else fnIsTruth) [x]))
      | None \<Rightarrow> None)"
| "scalarForm _ = None"

subsection \<open>Well-formed scalar functions\<close>

text \<open>
  A scalar function has the arguments of its name: two for the connectives and the
  comparisons, one for the tests and for \<^verbatim>\<open>not\<close>; so have its arguments.
\<close>

definition enoughArgs :: "FuncName \<Rightarrow> Expression list \<Rightarrow> bool" where
  "enoughArgs f args =
     (if f \<in> {fnOrOr, fnAndAnd, fnEQ, fnNE, fnGE, fnGT, fnLE, fnLT} then 2 \<le> length args
      else if f \<in> {fnIsNull, fnIsTruth, fnIsFalsity, fnUnaryNot} then 1 \<le> length args
      else True)"

fun arityOk :: "Expression \<Rightarrow> bool" where
  "arityOk (ScalarFunction f args) = (enoughArgs f args \<and> list_all arityOk args)"
| "arityOk _ = True"

text \<open>
  The checker \<^verbatim>\<open>detachConditions\<close> builds, and the predicate it splits by: a
  primary-key name was found and \<^verbatim>\<open>newCheck\<close> says yes.
\<close>

definition checkerFor :: "CIStr \<Rightarrow> TableInfo \<Rightarrow> IndexInfo option \<Rightarrow> int \<Rightarrow> conditionChecker" where
  "checkerFor pk table ix colOffset =
     \<lparr>tableName = TblName table, idx = ix, columnOffset = colOffset, pkName = pk\<rparr>"

definition accessible :: "CIStr \<Rightarrow> TableInfo \<Rightarrow> IndexInfo option \<Rightarrow> int \<Rightarrow> Expression \<Rightarrow> bool" where
  "accessible pk table ix colOffset con =
     (NameL pk \<noteq> [] \<and> newCheck (checkerFor pk table ix colOffset) con = Some True)"

subsection \<open>A small range builder\<close>

text \<open>
  For evaluation at concrete plans: a range builder that knows equality with a literal
  (a single point) and sets the builder's error on every other condition, intersects
  single points and the full range, and reads range points pairwise into ranges.
  \<^verbatim>\<open>SetLimit\<close> leaves the node as it is.
\<close>

definition pointsOf :: "Datum \<Rightarrow> rangePoint list" where
  "pointsOf d =
     [\<lparr>rpValue = d, rpExcl = False, rpStart = True\<rparr>,
      \<lparr>rpValue = d, rpExcl = False, rpStart = False\<rparr>]"

definition unsupported :: "rangeBuilder \<Rightarrow> rangePoint list \<times> rangeBuilder" where
  "unsupported rb = ([], rb\<lparr>err := Some (Error ''unsupported condition'')\<rparr>)"

definition sampleBuild :: "ExprNode \<Rightarrow> rangeBuilder \<Rightarrow> rangePoint list \<times> rangeBuilder" where
  "sampleBuild e rb =
     (case e of
        BinaryOperationExpr op l r \<Rightarrow>
          (case r of
             ValueExpr d \<Rightarrow> (if op = opEQ then (pointsOf d, rb) else unsupported rb)
           | _ \<Rightarrow> unsupported rb)
      | _ \<Rightarrow> unsupported rb)"

definition sampleNewBuild :: "Expression \<Rightarrow> rangeBuilder \<Rightarrow> rangePoint list \<times> rangeBuilder" where
  "sampleNewBuild e rb =
     (case e of
        ScalarFunction f args \<Rightarrow>
          (case index_at args 1 of
             Some (Constant d) \<Rightarrow> (if f = fnEQ then (pointsOf d, rb) else unsupported rb)
           | _ \<Rightarrow> unsupported rb)
      | _ \<Rightarrow> unsupported rb)"

definition sampleIntersection ::
  "rangePoint list \<Rightarrow> rangePoint list \<Rightarrow> rangeBuilder \<Rightarrow> rangePoint list \<times> rangeBuilder" where
  "sampleIntersection a b rb =
     (if a = fullRange then (b, rb)
      else if b = fullRange then (a, rb)
      else if a = b then (a, rb)
      else ([], rb))"

fun pairRanges :: "rangePoint list \<Rightarrow> IndexRange list" where
  "pairRanges (a # b # rest) =
     \<lparr>irLowVal = [rpValue a], irLowExclude = rpExcl a,
      irHighVal = [rpValue b], irHighExclude = rpExcl b\<rparr> # pairRanges rest"
| "pairRanges _ = []"

definition sampleAppend ::
  "IndexRange list \<Rightarrow> rangePoint list \<Rightarrow> rangeBuilder \<Rightarrow> IndexRange list \<times> rangeBuilder" where
  "sampleAppend ranges point rb =
     (concat (map (\<lambda>r. map (\<lambda>q.
        \<lparr>irLowVal = irLowVal r @ irLowVal q, irLowExclude = irLowExclude q,
         irHighVal = irHighVal r @ irHighVal q, irHighExclude = irHighExclude q\<rparr>)
        (pairRanges point)) ranges), rb)"

fun pairTableRanges :: "rangePoint list \<Rightarrow> TableRange list" where
  "pairTableRanges (a # b # rest) =
     \<lparr>LowVal = (case rpValue a of KindInt64 v \<Rightarrow> v | _ \<Rightarrow> MinInt64),
      HighVal = (case rpValue b of KindInt64 v \<Rightarrow> v | _ \<Rightarrow> MaxInt64)\<rparr> # pairTableRanges rest"
| "pairTableRanges _ = []"

definition sampleExternals :: externals where
  "sampleExternals =
     \<lparr>build = sampleBuild,
      newBuild = sampleNewBuild,
      intersection = sampleIntersection,
      buildIndexRanges = (\<lambda>point rb. (pairRanges point, rb)),
      appendIndexRanges = sampleAppend,
      buildTableRanges = (\<lambda>point rb. (pairTableRanges point, rb)),
      HasPriKeyFlag = priKeyBit,
      SetLimit = (\<lambda>p n. p)\<rparr>"

definition sampleIndexScan :: IndexScan where
  "sampleIndexScan =
     \<lparr>isAccessConditions =
        [BinaryOperationExpr opEQ (ColumnNameExpr tName idName) (ValueExpr (KindInt64 1)),
         BinaryOperationExpr opEQ (ColumnNameExpr tName bName) (ValueExpr (KindInt64 2))],
      isAccessEqualCount = 1,
      isRanges = []\<rparr>"

definition emptyScan :: TableScan where
  "emptyScan = \<lparr>tsTable = sampleTable, tsAccessConditions = [], tsRanges = []\<rparr>"

definition failingScan :: TableScan where
  "failingScan =
     \<lparr>tsTable = sampleTable,
      tsAccessConditions =
        [BinaryOperationExpr opGT (ColumnNameExpr tName idName) (ValueExpr (KindInt64 1))],
      tsRanges = []\<rparr>"

definition idleScan :: NewTableScan where
  "idleScan = \<lparr>ntTable = sampleTable, ntRanges = [], ntAccessCondition = []\<rparr>"

definition sampleSelection :: Selection where
  "sampleSelection =
     \<lparr>selConditions =
        [ScalarFunction fnGT [Column tName bName, Constant (KindInt64 1)],
         ScalarFunction fnEQ [Column tName idName, Constant (KindInt64 5)]]\<rparr>"

subsection \<open>The ranges of an index scan, as the specification words them\<close>

text \<open>
  One equality condition appended by cartesian expansion, one condition intersected
  into the range points, each threading the builder.
\<close>

definition appendStep ::
  "externals \<Rightarrow> IndexRange list \<times> rangeBuilder \<Rightarrow> ExprNode \<Rightarrow> IndexRange list \<times> rangeBuilder" where
  "appendStep x s cond =
     (case s of (ranges, rb) \<Rightarrow>
        (case build x cond rb of (point, rb1) \<Rightarrow> appendIndexRanges x ranges point rb1))"

definition intersectStep ::
  "externals \<Rightarrow> rangePoint list \<times> rangeBuilder \<Rightarrow> ExprNode \<Rightarrow> rangePoint list \<times> rangeBuilder" where
  "intersectStep x s cond =
     (case s of (rangePoints, rb) \<Rightarrow>
        (case build x cond rb of (point, rb1) \<Rightarrow> intersection x rangePoints point rb1))"

text \<open>
  The ranges of the equality prefix: the points of the first condition turned into
  index ranges, then the points of each further condition appended in order.
\<close>

definition equalRanges ::
  "externals \<Rightarrow> ExprNode list \<Rightarrow> rangeBuilder \<Rightarrow> IndexRange list \<times> rangeBuilder" where
  "equalRanges x conds rb =
     (case conds of
        [] \<Rightarrow> ([], rb)
      | c0 # rest \<Rightarrow>
          (case build x c0 rb of
             (point, rb1) \<Rightarrow> foldl (appendStep x) (buildIndexRanges x point rb1) rest))"

text \<open>
  The ranges of an index scan with conditions \<open>conds\<close> and \<open>k\<close> leading equality
  conditions: the conditions from \<open>k\<close> on are intersected, starting from the full range;
  with no equality prefix the result is turned into index ranges; with a prefix and
  further conditions it is appended to the ranges of the prefix; with a prefix and no
  further condition the ranges of the prefix stand.
\<close>

definition indexRanges ::
  "externals \<Rightarrow> ExprNode list \<Rightarrow> nat \<Rightarrow> IndexRange list \<times> rangeBuilder" where
  "indexRanges x conds k =
     (if k = 0 then
        (case foldl (intersectStep x) (fullRange, \<lparr>err = None\<rparr>) conds of
           (rangePoints, rb) \<Rightarrow> buildIndexRanges x rangePoints rb)
      else
        (case equalRanges x (take k conds) \<lparr>err = None\<rparr> of
           (ranges, rb) \<Rightarrow>
             (case foldl (intersectStep x) (fullRange, rb) (drop k conds) of
                (rangePoints, rb') \<Rightarrow>
                  (if k < length conds then appendIndexRanges x ranges rangePoints rb'
                   else (ranges, rb')))))"

subsection \<open>The ranges of a new table scan\<close>

definition newIntersectStep ::
  "externals \<Rightarrow> rangePoint list \<times> rangeBuilder \<Rightarrow> Expression \<Rightarrow> rangePoint list \<times> rangeBuilder" where
  "newIntersectStep x s cond =
     (case s of (rangePoints, rb) \<Rightarrow>
        (case newBuild x cond rb of (point, rb1) \<Rightarrow> intersection x rangePoints point rb1))"

text \<open>
  No access condition gives the full table range; otherwise the points of all access
  conditions are intersected, starting from the full range, and read as table ranges.
\<close>

definition newTableRanges :: "externals \<Rightarrow> Expression list \<Rightarrow> TableRange list" where
  "newTableRanges x accessConditions =
     (if accessConditions = [] then fullTableRange
      else
        (case foldl (newIntersectStep x) (fullRange, \<lparr>err = None\<rparr>) accessConditions of
           (rangePoints, rb) \<Rightarrow> fst (buildTableRanges x rangePoints rb)))"

subsection \<open>The traversal, as the specification words it\<close>

text \<open>
  A post-order walk over the whole plan that carries the first error met so far: the
  children of a node are walked in order, then the node is visited. Visiting a node
  refines it when no error has been met, and leaves it as it is once one has.
\<close>

fun visit :: "externals \<Rightarrow> error option \<Rightarrow> Plan \<Rightarrow> (Plan \<times> error option) option" where
  "visit x (Some e) p = Some (p, Some e)"
| "visit x None p = refineNode x p"

function sweep :: "externals \<Rightarrow> error option \<Rightarrow> Plan \<Rightarrow> (Plan \<times> error option) option"
  and sweepChildren ::
    "externals \<Rightarrow> error option \<Rightarrow> Plan list \<Rightarrow> (Plan list \<times> error option) option" where
  "sweep x st p =
     (case sweepChildren x st (GetChildren p) of
        None \<Rightarrow> None
      | Some (cs, st') \<Rightarrow> visit x st' (SetChildren p cs))"
| "sweepChildren x st [] = Some ([], st)"
| "sweepChildren x st (c # cs) =
     (case sweep x st c of
        None \<Rightarrow> None
      | Some (c', st') \<Rightarrow>
          (case sweepChildren x st' cs of
             None \<Rightarrow> None
           | Some (cs', st'') \<Rightarrow> Some (c' # cs', st'')))"
  by pat_completeness auto
termination
  by (relation "measure (\<lambda>v. case v of
          Inl (x, st, p) \<Rightarrow> 2 * size p
        | Inr (x, st, cs) \<Rightarrow> 2 * size_list size cs + 1)")
     (auto simp: size_GetChildren)

declare sweep.simps [simp del]

section \<open>Properties of the classifier\<close>

lemma checkColumnExpr_target:
  "validTarget c \<Longrightarrow> checkColumnExpr c e = Some (refersToTarget c e)"
  by (cases e) (auto simp: validTarget_def targetColumn_def index_at_def split: option.splits)

lemma checkColumn_target:
  "validTarget c \<Longrightarrow> checkColumn c e = Some (newRefersToTarget c e)"
  by (cases e) (auto simp: validTarget_def targetColumn_def index_at_def split: option.splits)

lemma refersToTarget_column: "refersToTarget c e \<Longrightarrow> \<exists>tbl col. e = ColumnNameExpr tbl col"
  by (cases e) auto

lemma newRefersToTarget_not_constant: "newRefersToTarget c e \<Longrightarrow> \<not> isConstant e"
  by (cases e) auto

text \<open>
  C2. A comparison (\<open>=\<close>, \<open>\<noteq>\<close>, \<open>\<ge>\<close>, \<open>>\<close>, \<open>\<le>\<close>, \<open><\<close>) is accessible if and only if
  exactly one of its two sides is a compile-time literal and the other side is a plain
  reference to the target column, in the tree form (\<^verbatim>\<open>check\<close>) and in the scalar-function
  form (\<^verbatim>\<open>newCheck\<close>). The checker has a target, and no column name is pre-evaluable. In
  particular two columns, or two literals, are not accessible.
\<close>

theorem comparison_accessible_iff:
  assumes "validTarget c"
    and "op \<in> {opEQ, opNE, opGE, opGT, opLE, opLT}"
    and "f \<in> {fnEQ, fnNE, fnGE, fnGT, fnLE, fnLT}"
    and "\<forall>tbl col. \<not> IsPreEvaluable env (ColumnNameExpr tbl col)"
  shows "check env c (BinaryOperationExpr op l r) =
           Some ((IsPreEvaluable env l \<and> \<not> IsPreEvaluable env r \<and> refersToTarget c r) \<or>
                 (IsPreEvaluable env r \<and> \<not> IsPreEvaluable env l \<and> refersToTarget c l)) \<and>
         newCheck c (ScalarFunction f [a0, a1]) =
           Some ((isConstant a0 \<and> \<not> isConstant a1 \<and> newRefersToTarget c a1) \<or>
                 (isConstant a1 \<and> \<not> isConstant a0 \<and> newRefersToTarget c a0))"
proof
  have col: "\<not> IsPreEvaluable env x" if "refersToTarget c x" for x
    using refersToTarget_column [OF that] assms(4) by auto
  show "check env c (BinaryOperationExpr op l r) =
           Some ((IsPreEvaluable env l \<and> \<not> IsPreEvaluable env r \<and> refersToTarget c r) \<or>
                 (IsPreEvaluable env r \<and> \<not> IsPreEvaluable env l \<and> refersToTarget c l))"
    using assms(2) col by (auto simp: checkColumnExpr_target [OF assms(1)])
  show "newCheck c (ScalarFunction f [a0, a1]) =
           Some ((isConstant a0 \<and> \<not> isConstant a1 \<and> newRefersToTarget c a1) \<or>
                 (isConstant a1 \<and> \<not> isConstant a0 \<and> newRefersToTarget c a0))"
    using assms(3) newRefersToTarget_not_constant [of c]
    by (auto simp: checkColumn_target [OF assms(1)] index_at_def)
qed

theorem comparison_accessible_iff_witness:
  "validTarget pkChecker \<and>
   check literalEnv pkChecker
     (BinaryOperationExpr opGE (ColumnNameExpr tName idName) (ValueExpr (KindInt64 5))) = Some True \<and>
   check literalEnv pkChecker
     (BinaryOperationExpr opGE (ColumnNameExpr tName idName) (ColumnNameExpr tName idName)) = Some False \<and>
   newCheck pkChecker (ScalarFunction fnLT [Constant (KindInt64 5), Column tName idName]) = Some True \<and>
   newCheck pkChecker (ScalarFunction fnLT [Constant (KindInt64 5), Constant (KindInt64 6)]) = Some False"
proof -
  have v: "validTarget pkChecker"
    by (simp add: validTarget_def pkChecker_def idName_def)
  have e: "\<forall>tbl col. \<not> IsPreEvaluable literalEnv (ColumnNameExpr tbl col)"
    by (simp add: literalEnv_def)
  have t: "targetColumn pkChecker = ''id''"
    by (simp add: targetColumn_def pkChecker_def idName_def)
  show ?thesis
    using v
      comparison_accessible_iff [OF v _ _ e, of opGE fnLT "ColumnNameExpr tName idName"
        "ValueExpr (KindInt64 5)" "Constant (KindInt64 5)" "Column tName idName"]
      comparison_accessible_iff [OF v _ _ e, of opGE fnLT "ColumnNameExpr tName idName"
        "ColumnNameExpr tName idName" "Constant (KindInt64 5)" "Constant (KindInt64 6)"]
    by (simp add: t literalEnv_def) (simp add: pkChecker_def idName_def tName_def)
qed

text \<open>
  C10. The claim is that \<^verbatim>\<open>check\<close> never reads out of bounds, also when a \<^verbatim>\<open>LIKE\<close>
  pattern is the empty string. At the predicate \<^verbatim>\<open>id LIKE ''\<close> the read of the
  pattern's first byte is out of range: \<^verbatim>\<open>check\<close> panics.
\<close>

theorem like_empty_pattern_panics:
  "check literalEnv pkChecker
     (PatternLikeExpr (ColumnNameExpr tName idName) (ValueExpr (KindString [])) False) = None"
  by (simp add: literalEnv_def pkChecker_def idName_def tName_def index_at_def)

text \<open>
  C7. The claim is that a \<^verbatim>\<open>LIKE\<close> on the target column with a literal pattern is
  accessible exactly when the pattern does not start with a wildcard. \<^verbatim>\<open>check\<close> compares
  the first byte with \<open>%\<close> and with \<open>.\<close>: the pattern \<^verbatim>\<open>_bc\<close>, whose first character is
  the one-character wildcard, is accepted, and the pattern \<^verbatim>\<open>.bc\<close>, whose first
  character is no wildcard, is rejected.
\<close>

theorem like_underscore_accepted:
  "likeWildcard (hd ''_bc'') \<and>
   check literalEnv pkChecker
     (PatternLikeExpr (ColumnNameExpr tName idName) (ValueExpr (KindString ''_bc'')) False) = Some True \<and>
   \<not> likeWildcard (hd ''.bc'') \<and>
   check literalEnv pkChecker
     (PatternLikeExpr (ColumnNameExpr tName idName) (ValueExpr (KindString ''.bc'')) False) = Some False"
  by (simp add: likeWildcard_def literalEnv_def pkChecker_def idName_def tName_def index_at_def)

text \<open>
  C6, as the code has it. In the tree form a predicate whose top node is a unary
  operation (\<^verbatim>\<open>NOT\<close> among them) is not accessible, and neither are \<^verbatim>\<open>NOT IN\<close> and
  \<^verbatim>\<open>NOT LIKE\<close>. In the scalar-function form \<^verbatim>\<open>not\<close> of an operand is accessible exactly
  when the operand is.
\<close>

theorem negation_classified:
  "check env c (UnaryOperationExpr op e) = Some False \<and>
   check env c (PatternInExpr e vals True sel) = Some False \<and>
   check env c (PatternLikeExpr e pat True) = Some False \<and>
   newCheck c (ScalarFunction fnUnaryNot (a # as)) = newCheck c a"
  by (simp add: index_at_def)

text \<open>
  The claim C6 as stated fails for the scalar-function form: \<^verbatim>\<open>NOT (id = 5)\<close> on the
  primary key \<open>id\<close> is accessible.
\<close>

theorem negation_counterexample:
  "newCheck pkChecker
     (ScalarFunction fnUnaryNot
        [ScalarFunction fnEQ [Column tName idName, Constant (KindInt64 5)]]) = Some True"
  by (simp add: pkChecker_def idName_def tName_def index_at_def)

lemma operandForm_column:
  "operandForm e = Some x \<Longrightarrow> checkColumnExpr c e = checkColumn c x"
  by (cases e) auto

lemma operandForm_constant:
  assumes "\<forall>d. IsPreEvaluable env (ValueExpr d)"
    and "\<forall>tbl col. \<not> IsPreEvaluable env (ColumnNameExpr tbl col)"
    and "operandForm e = Some x"
  shows "IsPreEvaluable env e = isConstant x"
  using assms by (cases e) auto

lemma newCheck_negated: "newCheck c (negated n x) = newCheck c x"
  by (simp add: negated_def index_at_def)

text \<open>
  C1, as the code has it. On every predicate that has a scalar form (conjunctions and
  disjunctions, comparisons of plain columns and literals, plain columns, and the null
  and truth tests of a plain column or literal), \<^verbatim>\<open>check\<close> on the tree form and
  \<^verbatim>\<open>newCheck\<close> on the scalar form give the same result, for every checker. Literals are
  pre-evaluable and column names are not.
\<close>

theorem check_newCheck_agree:
  assumes lit: "\<forall>d. IsPreEvaluable env (ValueExpr d)"
    and col: "\<forall>tbl col. \<not> IsPreEvaluable env (ColumnNameExpr tbl col)"
    and form: "scalarForm e = Some x"
  shows "check env c e = newCheck c x"
  using form
proof (induction e arbitrary: x)
  case (BinaryOperationExpr op l r)
  show ?case
  proof (cases "op \<in> {opAndAnd, opOrOr}")
    case True
    with BinaryOperationExpr.prems obtain f xl xr where
      f: "opFuncName op = Some f" and xl: "scalarForm l = Some xl"
      and xr: "scalarForm r = Some xr" and x: "x = ScalarFunction f [xl, xr]"
      by (auto split: option.splits)
    from True f have ff: "f \<in> {fnAndAnd, fnOrOr}" by auto
    have "check env c l = newCheck c xl" "check env c r = newCheck c xr"
      using BinaryOperationExpr.IH xl xr by auto
    with True ff x show ?thesis
      by (auto simp: and_also_def index_at_def split: option.splits bool.splits)
  next
    case False
    with BinaryOperationExpr.prems obtain f xl xr where
      f: "opFuncName op = Some f" and xl: "operandForm l = Some xl"
      and xr: "operandForm r = Some xr" and x: "x = ScalarFunction f [xl, xr]"
      by (auto split: option.splits)
    from False f have ff: "op \<in> {opEQ, opNE, opGE, opGT, opLE, opLT}"
      "f \<in> {fnEQ, fnNE, fnGE, fnGT, fnLE, fnLT}"
      by (cases op; auto)+
    have "IsPreEvaluable env l = isConstant xl" "IsPreEvaluable env r = isConstant xr"
      using operandForm_constant [OF lit col] xl xr by auto
    moreover have "checkColumnExpr c l = checkColumn c xl" "checkColumnExpr c r = checkColumn c xr"
      using operandForm_column xl xr by auto
    ultimately show ?thesis
      using False ff x by (auto simp: index_at_def)
  qed
next
  case (IsNullExpr e n)
  then show ?case
    by (auto simp: newCheck_negated index_at_def operandForm_column split: option.splits)
next
  case (IsTruthExpr e n t)
  then show ?case
    by (auto simp: newCheck_negated index_at_def operandForm_column split: option.splits)
qed auto

theorem check_newCheck_agree_witness:
  "scalarForm (BinaryOperationExpr opAndAnd
      (BinaryOperationExpr opGT (ColumnNameExpr tName idName) (ValueExpr (KindInt64 3)))
      (IsNullExpr (ColumnNameExpr tName idName) True)) =
     Some (ScalarFunction fnAndAnd
       [ScalarFunction fnGT [Column tName idName, Constant (KindInt64 3)],
        ScalarFunction fnUnaryNot [ScalarFunction fnIsNull [Column tName idName]]]) \<and>
   check literalEnv pkChecker (BinaryOperationExpr opAndAnd
      (BinaryOperationExpr opGT (ColumnNameExpr tName idName) (ValueExpr (KindInt64 3)))
      (IsNullExpr (ColumnNameExpr tName idName) True)) = Some True \<and>
   newCheck pkChecker (ScalarFunction fnAndAnd
       [ScalarFunction fnGT [Column tName idName, Constant (KindInt64 3)],
        ScalarFunction fnUnaryNot [ScalarFunction fnIsNull [Column tName idName]]]) = Some True"
proof -
  have l: "\<forall>d. IsPreEvaluable literalEnv (ValueExpr d)"
    by (simp add: literalEnv_def)
  have c: "\<forall>tbl col. \<not> IsPreEvaluable literalEnv (ColumnNameExpr tbl col)"
    by (simp add: literalEnv_def)
  have f: "scalarForm (BinaryOperationExpr opAndAnd
      (BinaryOperationExpr opGT (ColumnNameExpr tName idName) (ValueExpr (KindInt64 3)))
      (IsNullExpr (ColumnNameExpr tName idName) True)) =
     Some (ScalarFunction fnAndAnd
       [ScalarFunction fnGT [Column tName idName, Constant (KindInt64 3)],
        ScalarFunction fnUnaryNot [ScalarFunction fnIsNull [Column tName idName]]])"
    by (simp add: negated_def)
  have n: "newCheck pkChecker (ScalarFunction fnAndAnd
       [ScalarFunction fnGT [Column tName idName, Constant (KindInt64 3)],
        ScalarFunction fnUnaryNot [ScalarFunction fnIsNull [Column tName idName]]]) = Some True"
    by (simp add: pkChecker_def idName_def tName_def index_at_def)
  show ?thesis
    using check_newCheck_agree [OF l c f, of pkChecker] f n by simp
qed

text \<open>
  The claim C1 as stated fails: a bare literal is rejected by \<^verbatim>\<open>check\<close> and accepted
  by \<^verbatim>\<open>newCheck\<close>, and \<^verbatim>\<open>NOT id\<close> on the primary key \<open>id\<close> is rejected by \<^verbatim>\<open>check\<close>
  and accepted by \<^verbatim>\<open>newCheck\<close>.
\<close>

theorem check_newCheck_counterexample:
  "check literalEnv pkChecker (ValueExpr (KindInt64 1)) \<noteq>
     newCheck pkChecker (Constant (KindInt64 1)) \<and>
   check literalEnv pkChecker (UnaryOperationExpr opNot (ColumnNameExpr tName idName)) \<noteq>
     newCheck pkChecker (ScalarFunction fnUnaryNot [Column tName idName])"
  by (simp add: pkChecker_def idName_def tName_def index_at_def)

section \<open>Properties of the splitter\<close>

lemma checkColumn_pk: "NameL (pkName c) \<noteq> [] \<Longrightarrow> checkColumn c e \<noteq> None"
  by (cases e) auto

lemma newCheck_total:
  "NameL (pkName c) \<noteq> [] \<Longrightarrow> arityOk e \<Longrightarrow> newCheck c e \<noteq> None"
  "NameL (pkName c) \<noteq> [] \<Longrightarrow> list_all arityOk args \<Longrightarrow> enoughArgs f args \<Longrightarrow>
     checkScalarFunction c f args \<noteq> None"
proof (induction c e and c f args rule: newCheck_checkScalarFunction.induct)
  case (1 c f args)
  then show ?case by (simp del: checkScalarFunction.simps)
next
  case (2 c tbl col)
  then show ?case using checkColumn_pk [of c "Column tbl col"] by simp
next
  case (3 c d)
  then show ?case by simp
next
  case (4 c)
  then show ?case by simp
next
  case (5 c f args)
  have mem: "arityOk (args ! n)" if "n < length args" for n
    using 5(5) that by (simp add: list_all_length)
  consider (logic) "f \<in> {fnOrOr, fnAndAnd}"
    | (cmp) "f \<in> {fnEQ, fnNE, fnGE, fnGT, fnLE, fnLT}"
    | (un) "f \<in> {fnIsNull, fnIsTruth, fnIsFalsity}"
    | (neg) "f = fnUnaryNot"
    | (other) "f \<notin> {fnOrOr, fnAndAnd, fnEQ, fnNE, fnGE, fnGT, fnLE, fnLT, fnIsNull, fnIsTruth, fnIsFalsity, fnUnaryNot}"
    by blast
  then show ?case
  proof cases
    case logic
    with 5(6) have len: "2 \<le> length args" by (auto simp: enoughArgs_def)
    then have i0: "index_at args 0 = Some (args ! 0)" and i1: "index_at args 1 = Some (args ! 1)"
      by (auto simp: index_at_def)
    have n0: "newCheck c (args ! 0) \<noteq> None"
      using 5(1) [OF logic i0 5(4)] mem [of 0] len by fastforce
    show ?thesis
    proof (cases "newCheck c (args ! 0)")
      case None
      with n0 show ?thesis by simp
    next
      case (Some b)
      show ?thesis
      proof (cases b)
        case True
        have "newCheck c (args ! 1) \<noteq> None"
          using 5(2) [OF logic i0 _ _ i1 5(4)] Some True mem [of 1] len by fastforce
        with logic i0 i1 Some True show ?thesis by simp
      next
        case False
        with logic i0 Some show ?thesis by simp
      qed
    qed
  next
    case cmp
    with 5(6) have len: "2 \<le> length args" by (auto simp: enoughArgs_def)
    then have i0: "index_at args 0 = Some (args ! 0)" and i1: "index_at args 1 = Some (args ! 1)"
      by (auto simp: index_at_def)
    from cmp have nl: "f \<notin> {fnOrOr, fnAndAnd}" by auto
    show ?thesis
      using nl cmp i0 i1 checkColumn_pk [OF 5(4)] by auto
  next
    case un
    with 5(6) have len: "1 \<le> length args" by (auto simp: enoughArgs_def)
    then have i0: "index_at args 0 = Some (args ! 0)"
      by (auto simp: index_at_def)
    from un have nl: "f \<notin> {fnOrOr, fnAndAnd}" "f \<notin> {fnEQ, fnNE, fnGE, fnGT, fnLE, fnLT}" by auto
    show ?thesis
      using nl un i0 checkColumn_pk [OF 5(4)] by auto
  next
    case neg
    with 5(6) have len: "1 \<le> length args" by (auto simp: enoughArgs_def)
    then have i0: "index_at args 0 = Some (args ! 0)"
      by (auto simp: index_at_def)
    from neg have nl: "f \<notin> {fnOrOr, fnAndAnd}" "f \<notin> {fnEQ, fnNE, fnGE, fnGT, fnLE, fnLT}"
      "f \<notin> {fnIsNull, fnIsTruth, fnIsFalsity}" by auto
    have "newCheck c (args ! 0) \<noteq> None"
      using 5(3) [OF nl neg i0 5(4)] mem [of 0] len by fastforce
    with nl neg i0 show ?thesis by simp
  next
    case other
    then show ?thesis by simp
  qed
qed

lemma detachLoop_split:
  "detachLoop pk table ix off conds acc flt = Some (a, f) \<Longrightarrow>
   a = acc @ filter (accessible pk table ix off) conds \<and>
   f = flt @ filter (\<lambda>con. \<not> accessible pk table ix off con) conds"
proof (induction conds arbitrary: acc flt)
  case Nil
  then show ?case by simp
next
  case (Cons con conds)
  show ?case
  proof (cases "NameL pk = []")
    case True
    with Cons.prems have "detachLoop pk table ix off conds acc (flt @ [con]) = Some (a, f)"
      by simp
    from Cons.IH [OF this] True show ?thesis
      by (simp add: accessible_def)
  next
    case False
    show ?thesis
    proof (cases "newCheck (checkerFor pk table ix off) con")
      case None
      with False Cons.prems show ?thesis
        by (simp add: checkerFor_def)
    next
      case (Some b)
      show ?thesis
      proof (cases b)
        case True
        with False Some Cons.prems
        have "detachLoop pk table ix off conds (acc @ [con]) flt = Some (a, f)"
          by (simp add: checkerFor_def)
        from Cons.IH [OF this] False Some True show ?thesis
          by (simp add: accessible_def)
      next
        case b: False
        with False Some Cons.prems
        have "detachLoop pk table ix off conds acc (flt @ [con]) = Some (a, f)"
          by (simp add: checkerFor_def)
        from Cons.IH [OF this] False Some b show ?thesis
          by (simp add: accessible_def)
      qed
    qed
  qed
qed

lemma detachLoop_total:
  "list_all arityOk conds \<Longrightarrow> detachLoop pk table ix off conds acc flt \<noteq> None"
proof (induction conds arbitrary: acc flt)
  case Nil
  then show ?case by simp
next
  case (Cons con conds)
  then have ok: "arityOk con" and rest: "list_all arityOk conds"
    by simp_all
  show ?case
  proof (cases "NameL pk = []")
    case True
    with Cons.IH [OF rest] show ?thesis by simp
  next
    case False
    then have "newCheck (checkerFor pk table ix off) con \<noteq> None"
      using newCheck_total(1) [of "checkerFor pk table ix off" con] ok
      by (simp add: checkerFor_def)
    then obtain b where "newCheck (checkerFor pk table ix off) con = Some b"
      by auto
    with False Cons.IH [OF rest] show ?thesis
      by (cases b) (simp_all add: checkerFor_def)
  qed
qed

lemma findPriKey_none:
  "\<not> (\<exists>colInfo \<in> set cols. h (ColFlag colInfo)) \<Longrightarrow> findPriKey h cols = zeroCIStr"
  by (induction cols) auto

lemma pkNameOf_none:
  "\<not> PKIsHandle table \<or> \<not> (\<exists>colInfo \<in> set (TblColumns table). h (ColFlag colInfo)) \<Longrightarrow>
   NameL (pkNameOf h table) = []"
  using findPriKey_none [of "TblColumns table" h]
  by (auto simp: pkNameOf_def zeroCIStr_def)

text \<open>
  C4. \<^verbatim>\<open>detachConditions\<close> returns for every list of well-formed predicates, and what
  it returns is a partition of its input: the access conditions are the input
  predicates that are accessible and the filter conditions are the others, each in
  input order, so that every predicate is in exactly one of the two lists, as often as
  in the input. When the table has no primary-key column (\<^verbatim>\<open>PKIsHandle\<close> is false, or no
  column has the flag) there is no access condition and every predicate is a filter
  condition.
\<close>

theorem detachConditions_partition:
  "(list_all arityOk conditions \<longrightarrow> detachConditions h conditions table ix off \<noteq> None) \<and>
   (\<forall>acc flt. detachConditions h conditions table ix off = Some (acc, flt) \<longrightarrow>
      acc = filter (accessible (pkNameOf h table) table ix off) conditions \<and>
      flt = filter (\<lambda>con. \<not> accessible (pkNameOf h table) table ix off con) conditions \<and>
      mset acc + mset flt = mset conditions \<and>
      subseq acc conditions \<and> subseq flt conditions \<and>
      (\<not> PKIsHandle table \<or> \<not> (\<exists>colInfo \<in> set (TblColumns table). h (ColFlag colInfo)) \<longrightarrow>
         acc = [] \<and> flt = conditions))"
proof (intro conjI allI impI)
  assume "list_all arityOk conditions"
  then show "detachConditions h conditions table ix off \<noteq> None"
    by (simp add: detachConditions_def detachLoop_total)
next
  fix acc flt
  assume r: "detachConditions h conditions table ix off = Some (acc, flt)"
  from detachLoop_split [OF r [unfolded detachConditions_def]]
  have a: "acc = filter (accessible (pkNameOf h table) table ix off) conditions"
    and f: "flt = filter (\<lambda>con. \<not> accessible (pkNameOf h table) table ix off con) conditions"
    by simp_all
  show "acc = filter (accessible (pkNameOf h table) table ix off) conditions" by (rule a)
  show "flt = filter (\<lambda>con. \<not> accessible (pkNameOf h table) table ix off con) conditions"
    by (rule f)
  show "mset acc + mset flt = mset conditions"
    unfolding a f by (induction conditions) auto
  show "subseq acc conditions" unfolding a by simp
  show "subseq flt conditions" unfolding f by simp
  assume "\<not> PKIsHandle table \<or> \<not> (\<exists>colInfo \<in> set (TblColumns table). h (ColFlag colInfo))"
  then have "NameL (pkNameOf h table) = []" by (rule pkNameOf_none)
  then show "acc = []" "flt = conditions"
    unfolding a f by (simp_all add: accessible_def)
qed

theorem detachConditions_partition_witness:
  "list_all arityOk sampleConditions \<and>
   detachConditions priKeyBit sampleConditions sampleTable None 0 =
     Some ([ScalarFunction fnEQ [Column tName idName, Constant (KindInt64 5)],
            ScalarFunction fnLE [Constant (KindInt64 9), Column tName idName]],
           [ScalarFunction fnGT [Column tName bName, Constant (KindInt64 1)],
            ScalarFunction (fnOther ''length'') [Column tName idName]]) \<and>
   detachConditions priKeyBit sampleConditions (sampleTable\<lparr>PKIsHandle := False\<rparr>) None 0 =
     Some ([], sampleConditions)"
proof -
  have ok: "list_all arityOk sampleConditions"
    by (simp add: sampleConditions_def enoughArgs_def)
  have pk: "pkNameOf priKeyBit sampleTable = idName"
    by (simp add: pkNameOf_def sampleTable_def priKeyBit_def)
  from ok detachConditions_partition [of sampleConditions priKeyBit sampleTable None 0]
  obtain acc flt where r: "detachConditions priKeyBit sampleConditions sampleTable None 0 = Some (acc, flt)"
    by auto
  with detachConditions_partition [of sampleConditions priKeyBit sampleTable None 0]
  have "acc = filter (accessible idName sampleTable None 0) sampleConditions"
    and "flt = filter (\<lambda>con. \<not> accessible idName sampleTable None 0 con) sampleConditions"
    by (simp_all add: pk)
  then have 1: "acc = [ScalarFunction fnEQ [Column tName idName, Constant (KindInt64 5)],
            ScalarFunction fnLE [Constant (KindInt64 9), Column tName idName]]"
    and 2: "flt = [ScalarFunction fnGT [Column tName bName, Constant (KindInt64 1)],
            ScalarFunction (fnOther ''length'') [Column tName idName]]"
    by (simp_all add: accessible_def checkerFor_def sampleConditions_def sampleTable_def
        idName_def tName_def bName_def index_at_def)
  have ok': "list_all arityOk sampleConditions"
    by (rule ok)
  from ok' detachConditions_partition [of sampleConditions priKeyBit "sampleTable\<lparr>PKIsHandle := False\<rparr>" None 0]
  obtain acc' flt' where r': "detachConditions priKeyBit sampleConditions (sampleTable\<lparr>PKIsHandle := False\<rparr>) None 0 = Some (acc', flt')"
    by auto
  with detachConditions_partition [of sampleConditions priKeyBit "sampleTable\<lparr>PKIsHandle := False\<rparr>" None 0]
  have "\<not> PKIsHandle (sampleTable\<lparr>PKIsHandle := False\<rparr>) \<longrightarrow> acc' = [] \<and> flt' = sampleConditions"
    by blast
  then have "acc' = [] \<and> flt' = sampleConditions"
    by simp
  with ok r r' 1 2 show ?thesis by simp
qed

section \<open>Properties of range building\<close>

lemma MinInt64_sint: "sint MinInt64 = - (2 ^ 63)"
  by (simp add: MinInt64_def)

lemma MaxInt64_sint: "sint MaxInt64 = 2 ^ 63 - 1"
  by (simp add: MaxInt64_def)

lemma int64_bounds:
  fixes v :: "64 word"
  shows "sint MinInt64 \<le> sint v \<and> sint v \<le> sint MaxInt64"
  using sint_ge [of v] sint_lt [of v]
  by (simp add: MinInt64_sint MaxInt64_sint)

text \<open>
  C9. A table scan without access conditions gets exactly one range,
  \<open>(MinInt64, MaxInt64)\<close>: from \<^verbatim>\<open>buildTableRange\<close>, from every successful \<^verbatim>\<open>refine\<close> of
  a \<^verbatim>\<open>TableScan\<close> node (which succeeds when the node has no children), and from
  \<^verbatim>\<open>buildNewTableRange\<close> with no access condition, as from the refinement of a
  \<^verbatim>\<open>NewTableScan\<close> node itself. The two bounds are the least and the
  greatest 64-bit signed integer, so the range covers every value.
\<close>

theorem empty_access_conditions_full_range:
  "(tsAccessConditions p = [] \<longrightarrow>
      buildTableRange x p = (p\<lparr>tsRanges := [\<lparr>LowVal = MinInt64, HighVal = MaxInt64\<rparr>]\<rparr>, None) \<and>
      refine x (PTableScan p []) =
        Some (PTableScan (p\<lparr>tsRanges := [\<lparr>LowVal = MinInt64, HighVal = MaxInt64\<rparr>]\<rparr>) [], None) \<and>
      (\<forall>cs q. refine x (PTableScan p cs) = Some (q, None) \<longrightarrow>
         (\<exists>cs'. q = PTableScan (p\<lparr>tsRanges := [\<lparr>LowVal = MinInt64, HighVal = MaxInt64\<rparr>]\<rparr>) cs'))) \<and>
   buildNewTableRange x n [] = (n\<lparr>ntRanges := [\<lparr>LowVal = MinInt64, HighVal = MaxInt64\<rparr>]\<rparr>, None) \<and>
   refineNode x (PNewTableScan n ncs) =
     Some (PNewTableScan (n\<lparr>ntRanges := [\<lparr>LowVal = MinInt64, HighVal = MaxInt64\<rparr>]\<rparr>) ncs, None) \<and>
   sint MinInt64 = - (2 ^ 63) \<and> sint MaxInt64 = 2 ^ 63 - 1 \<and>
   (\<forall>v :: 64 word. sint MinInt64 \<le> sint v \<and> sint v \<le> sint MaxInt64)"
proof (intro conjI impI allI)
  assume e: "tsAccessConditions p = []"
  then show b: "buildTableRange x p = (p\<lparr>tsRanges := [\<lparr>LowVal = MinInt64, HighVal = MaxInt64\<rparr>]\<rparr>, None)"
    by (simp add: buildTableRange_def fullTableRange_def)
  then show "refine x (PTableScan p []) =
        Some (PTableScan (p\<lparr>tsRanges := [\<lparr>LowVal = MinInt64, HighVal = MaxInt64\<rparr>]\<rparr>) [], None)"
    by (simp add: refine.simps)
  fix cs q
  assume "refine x (PTableScan p cs) = Some (q, None)"
  with b show "\<exists>cs'. q = PTableScan (p\<lparr>tsRanges := [\<lparr>LowVal = MinInt64, HighVal = MaxInt64\<rparr>]\<rparr>) cs'"
    by (auto simp: refine.simps split: option.splits prod.splits)
next
  show "buildNewTableRange x n [] = (n\<lparr>ntRanges := [\<lparr>LowVal = MinInt64, HighVal = MaxInt64\<rparr>]\<rparr>, None)"
    by (simp add: buildNewTableRange_def fullTableRange_def)
  show "refineNode x (PNewTableScan n ncs) =
     Some (PNewTableScan (n\<lparr>ntRanges := [\<lparr>LowVal = MinInt64, HighVal = MaxInt64\<rparr>]\<rparr>) ncs, None)"
    by (simp add: fullTableRange_def)
  show "sint MinInt64 = - (2 ^ 63)" by (rule MinInt64_sint)
  show "sint MaxInt64 = 2 ^ 63 - 1" by (rule MaxInt64_sint)
  fix v :: "64 word"
  show "sint MinInt64 \<le> sint v" "sint v \<le> sint MaxInt64"
    using int64_bounds [of v] by simp_all
qed

theorem empty_access_conditions_full_range_witness:
  "tsAccessConditions emptyScan = [] \<and>
   refine sampleExternals (PTableScan emptyScan []) =
     Some (PTableScan (emptyScan\<lparr>tsRanges := [\<lparr>LowVal = MinInt64, HighVal = MaxInt64\<rparr>]\<rparr>) [], None)"
  using empty_access_conditions_full_range [of emptyScan sampleExternals]
  by (simp add: emptyScan_def)

lemma index_at_nth: "0 \<le> i \<Longrightarrow> i < int (length xs) \<Longrightarrow> index_at xs i = Some (xs ! nat i)"
  by (simp add: index_at_def)

lemma equalLoop_foldl:
  "0 \<le> i \<Longrightarrow> i \<le> k \<Longrightarrow> k \<le> int (length conds) \<Longrightarrow>
   equalLoop x conds k i s = Some (foldl (appendStep x) s (drop (nat i) (take (nat k) conds)))"
proof (induction x conds k i s rule: equalLoop.induct)
  case (1 x conds k i ranges rb)
  show ?case
  proof (cases "i < k")
    case True
    obtain point rb1 where b: "build x (conds ! nat i) rb = (point, rb1)"
      by (cases "build x (conds ! nat i) rb")
    have at: "index_at conds i = Some (conds ! nat i)"
      using True 1(2,4) by (simp add: index_at_nth)
    have "nat i < length (take (nat k) conds)"
      using True 1(2,4) by simp
    then have d: "drop (nat i) (take (nat k) conds) =
        conds ! nat i # drop (nat (i + 1)) (take (nat k) conds)"
      using 1(2) by (simp add: Cons_nth_drop_Suc [symmetric] nat_add_distrib)
    have "equalLoop x conds k (i + 1) (appendIndexRanges x ranges point rb1) =
        Some (foldl (appendStep x) (appendIndexRanges x ranges point rb1)
               (drop (nat (i + 1)) (take (nat k) conds)))"
      using 1(1) [OF True at b [symmetric]] True 1(2,4) by simp
    moreover have "appendStep x (ranges, rb) (conds ! nat i) = appendIndexRanges x ranges point rb1"
      by (simp add: appendStep_def b)
    ultimately show ?thesis
      using True at b d by (subst equalLoop.simps) simp
  next
    case False
    with 1(3) have "i = k" by simp
    then show ?thesis by (subst equalLoop.simps) simp
  qed
qed

lemma nonEqualLoop_foldl:
  "0 \<le> i \<Longrightarrow> i \<le> int (length conds) \<Longrightarrow>
   nonEqualLoop x conds i s = Some (foldl (intersectStep x) s (drop (nat i) conds))"
proof (induction x conds i s rule: nonEqualLoop.induct)
  case (1 x conds i rangePoints rb)
  show ?case
  proof (cases "i < int (length conds)")
    case True
    obtain point rb1 where b: "build x (conds ! nat i) rb = (point, rb1)"
      by (cases "build x (conds ! nat i) rb")
    have at: "index_at conds i = Some (conds ! nat i)"
      using True 1(2) by (simp add: index_at_nth)
    have "nat i < length conds"
      using True 1(2) by simp
    then have d: "drop (nat i) conds = conds ! nat i # drop (nat (i + 1)) conds"
      using 1(2) by (simp add: Cons_nth_drop_Suc [symmetric] nat_add_distrib)
    have "nonEqualLoop x conds (i + 1) (intersection x rangePoints point rb1) =
        Some (foldl (intersectStep x) (intersection x rangePoints point rb1)
               (drop (nat (i + 1)) conds))"
      using 1(1) [OF True at b [symmetric]] True 1(2) by simp
    moreover have "intersectStep x (rangePoints, rb) (conds ! nat i) =
        intersection x rangePoints point rb1"
      by (simp add: intersectStep_def b)
    ultimately show ?thesis
      using True at b d by (subst nonEqualLoop.simps) simp
  next
    case False
    with 1(3) have "nat i = length conds" by simp
    with False show ?thesis by (subst nonEqualLoop.simps) simp
  qed
qed

text \<open>
  C3. For an index scan with conditions \<open>c\<^sub>0 \<dots> c\<^sub>n\<^sub>-\<^sub>1\<close> and \<open>0 \<le> k \<le> n\<close> leading
  equality conditions, \<^verbatim>\<open>buildIndexRange\<close> returns, and sets \<^verbatim>\<open>Ranges\<close> to the ranges the
  specification describes: the points of \<open>c\<^sub>0\<close> as index ranges with the points of
  \<open>c\<^sub>1 \<dots> c\<^sub>k\<^sub>-\<^sub>1\<close> appended in order; the points of \<open>c\<^sub>k \<dots> c\<^sub>n\<^sub>-\<^sub>1\<close> intersected from the
  full range; the latter alone when \<open>k = 0\<close>, appended to the former when \<open>0 < k < n\<close>,
  and not appended when \<open>k = n\<close>. The error returned is the builder's.
\<close>

theorem buildIndexRange_ranges:
  assumes "0 \<le> isAccessEqualCount p"
    and "isAccessEqualCount p \<le> int (length (isAccessConditions p))"
  shows "buildIndexRange x p =
     (case indexRanges x (isAccessConditions p) (nat (isAccessEqualCount p)) of
        (ranges, rb) \<Rightarrow> Some (p\<lparr>isRanges := ranges\<rparr>, err rb))"
proof (cases "isAccessEqualCount p = 0")
  case True
  then show ?thesis
    by (simp add: buildIndexRange_def indexRanges_def nonEqualLoop_foldl
        split: prod.splits)
next
  case False
  define k where "k = isAccessEqualCount p"
  define conds where "conds = isAccessConditions p"
  from False assms have k: "0 < k" "k \<le> int (length conds)"
    by (simp_all add: k_def conds_def)
  then obtain c0 rest where c: "conds = c0 # rest"
    by (cases conds) auto
  have at: "index_at conds 0 = Some c0"
    by (simp add: c index_at_def)
  obtain point rb1 where b: "build x c0 \<lparr>err = None\<rparr> = (point, rb1)"
    by (cases "build x c0 \<lparr>err = None\<rparr>")
  have tk: "take (nat k) conds = c0 # take (nat k - 1) rest"
    using k by (simp add: c take_Cons')
  have dr: "drop (nat 1) (take (nat k) conds) = take (nat k - 1) rest"
    by (simp add: tk)
  have eq: "equalLoop x conds k 1 (buildIndexRanges x point rb1) =
      Some (equalRanges x (take (nat k) conds) \<lparr>err = None\<rparr>)"
    using equalLoop_foldl [of 1 k conds x "buildIndexRanges x point rb1"] k dr
    by (simp add: equalRanges_def tk b)
  obtain ranges rb2 where e: "equalRanges x (take (nat k) conds) \<lparr>err = None\<rparr> = (ranges, rb2)"
    by (cases "equalRanges x (take (nat k) conds) \<lparr>err = None\<rparr>")
  have ne: "nonEqualLoop x conds k (fullRange, rb2) =
      Some (foldl (intersectStep x) (fullRange, rb2) (drop (nat k) conds))"
    using nonEqualLoop_foldl [of k conds x "(fullRange, rb2)"] k by simp
  have lt: "(k < int (length conds)) = (nat k < length conds)"
    using k by auto
  show ?thesis
    using k at b eq e ne lt
    by (simp add: buildIndexRange_def indexRanges_def k_def [symmetric] conds_def [symmetric]
        split: prod.splits)
qed

theorem buildIndexRange_ranges_witness:
  "0 \<le> isAccessEqualCount sampleIndexScan \<and>
   isAccessEqualCount sampleIndexScan \<le> int (length (isAccessConditions sampleIndexScan)) \<and>
   buildIndexRange sampleExternals sampleIndexScan =
     Some (sampleIndexScan\<lparr>isRanges :=
        [\<lparr>irLowVal = [KindInt64 1, KindInt64 2], irLowExclude = False,
          irHighVal = [KindInt64 1, KindInt64 2], irHighExclude = False\<rparr>]\<rparr>, None)"
proof -
  have k: "0 \<le> isAccessEqualCount sampleIndexScan"
    "isAccessEqualCount sampleIndexScan \<le> int (length (isAccessConditions sampleIndexScan))"
    by (simp_all add: sampleIndexScan_def)
  have "indexRanges sampleExternals (isAccessConditions sampleIndexScan)
          (nat (isAccessEqualCount sampleIndexScan)) =
        ([\<lparr>irLowVal = [KindInt64 1, KindInt64 2], irLowExclude = False,
           irHighVal = [KindInt64 1, KindInt64 2], irHighExclude = False\<rparr>], \<lparr>err = None\<rparr>)"
    by (simp add: indexRanges_def equalRanges_def intersectStep_def sampleIndexScan_def
        sampleExternals_def sampleBuild_def pointsOf_def sampleIntersection_def fullRange_def
        sampleAppend_def)
  with k buildIndexRange_ranges [OF k, of sampleExternals] show ?thesis
    by simp
qed

lemma newTableLoop_Inr:
  "newTableLoop x conds s = Inr r \<Longrightarrow> r = foldl (newIntersectStep x) s conds"
proof (induction conds arbitrary: s)
  case Nil
  then show ?case by (cases s) simp
next
  case (Cons cond conds)
  obtain rangePoints rb where s: "s = (rangePoints, rb)" by (cases s)
  obtain point rb1 where b: "newBuild x cond rb = (point, rb1)"
    by (cases "newBuild x cond rb")
  obtain rangePoints' rb2 where i: "intersection x rangePoints point rb1 = (rangePoints', rb2)"
    by (cases "intersection x rangePoints point rb1")
  from Cons.prems s b i have "newTableLoop x conds (rangePoints', rb2) = Inr r"
    by (simp split: option.splits)
  from Cons.IH [OF this] s b i show ?case
    by (simp add: newIntersectStep_def)
qed

lemma buildNewTableRange_ranges:
  "buildNewTableRange x scan acc = (scan', None) \<Longrightarrow> ntRanges scan' = newTableRanges x acc"
proof (cases "acc = []")
  case True
  assume "buildNewTableRange x scan acc = (scan', None)"
  with True show ?thesis
    by (auto simp: buildNewTableRange_def newTableRanges_def)
next
  case False
  assume r: "buildNewTableRange x scan acc = (scan', None)"
  show ?thesis
  proof (cases "newTableLoop x acc (fullRange, \<lparr>err = None\<rparr>)")
    case (Inl e)
    with False r show ?thesis
      by (simp add: buildNewTableRange_def)
  next
    case (Inr res)
    from newTableLoop_Inr [OF Inr] False r Inr show ?thesis
      by (auto simp: buildNewTableRange_def newTableRanges_def split: prod.splits)
  qed
qed

text \<open>
  C8, as the code has it. For a selection whose first child is a \<^verbatim>\<open>NewTableScan\<close>, the
  node's refinement returns when the conditions are well formed; it splits the
  selection's conditions by the scan's table and its primary key, gives the access
  conditions to \<^verbatim>\<open>buildNewTableRange\<close> on the scan, which on success sets the scan's
  ranges to those of the access conditions, and leaves exactly the filter conditions
  on the selection. Above any other child, and without a child, the selection and its
  children stay as they are.
\<close>

theorem selection_above_new_table_scan:
  "(list_all arityOk (selConditions p) \<longrightarrow>
      refineNode x (PSelection p (PNewTableScan scan cs # rest)) \<noteq> None) \<and>
   (\<forall>q e. refineNode x (PSelection p (PNewTableScan scan cs # rest)) = Some (q, e) \<longrightarrow>
      (\<exists>scan'.
         buildNewTableRange x scan
           (filter (accessible (pkNameOf (HasPriKeyFlag x) (ntTable scan)) (ntTable scan) None 0)
              (selConditions p)) = (scan', e) \<and>
         q = PSelection
               (p\<lparr>selConditions :=
                    filter (\<lambda>con. \<not> accessible (pkNameOf (HasPriKeyFlag x) (ntTable scan))
                                     (ntTable scan) None 0 con) (selConditions p)\<rparr>)
               (PNewTableScan scan' cs # rest) \<and>
         (e = None \<longrightarrow>
            ntRanges scan' =
              newTableRanges x
                (filter (accessible (pkNameOf (HasPriKeyFlag x) (ntTable scan)) (ntTable scan) None 0)
                   (selConditions p))))) \<and>
   (\<forall>c. (\<forall>scan cs. c \<noteq> PNewTableScan scan cs) \<longrightarrow>
      refineNode x (PSelection p (c # rest)) = Some (PSelection p (c # rest), None)) \<and>
   refineNode x (PSelection p []) = Some (PSelection p [], None)"
proof (intro conjI allI impI)
  assume "list_all arityOk (selConditions p)"
  then have "detachConditions (HasPriKeyFlag x) (selConditions p) (ntTable scan) None 0 \<noteq> None"
    by (simp add: detachConditions_def detachLoop_total)
  then show "refineNode x (PSelection p (PNewTableScan scan cs # rest)) \<noteq> None"
    by (auto split: prod.splits)
next
  fix q e
  assume r: "refineNode x (PSelection p (PNewTableScan scan cs # rest)) = Some (q, e)"
  let ?pk = "pkNameOf (HasPriKeyFlag x) (ntTable scan)"
  let ?acc = "filter (accessible ?pk (ntTable scan) None 0) (selConditions p)"
  let ?flt = "filter (\<lambda>con. \<not> accessible ?pk (ntTable scan) None 0 con) (selConditions p)"
  from r obtain acc flt where
    d: "detachConditions (HasPriKeyFlag x) (selConditions p) (ntTable scan) None 0 = Some (acc, flt)"
    by (auto split: option.splits)
  from detachLoop_split [OF d [unfolded detachConditions_def]]
  have a: "acc = ?acc" and f: "flt = ?flt"
    by simp_all
  obtain scan' e' where b: "buildNewTableRange x scan acc = (scan', e')"
    by (cases "buildNewTableRange x scan acc")
  from r d b have q: "q = PSelection (p\<lparr>selConditions := flt\<rparr>) (PNewTableScan scan' cs # rest)"
    and e: "e = e'"
    by simp_all
  have "e = None \<longrightarrow> ntRanges scan' = newTableRanges x acc"
    using b e buildNewTableRange_ranges [of x scan acc scan'] by simp
  with q e b show "\<exists>scan'. buildNewTableRange x scan ?acc = (scan', e) \<and>
      q = PSelection (p\<lparr>selConditions := ?flt\<rparr>) (PNewTableScan scan' cs # rest) \<and>
      (e = None \<longrightarrow> ntRanges scan' = newTableRanges x ?acc)"
    unfolding a [symmetric] f [symmetric] by blast
next
  fix c
  assume "\<forall>scan cs. c \<noteq> PNewTableScan scan cs"
  then show "refineNode x (PSelection p (c # rest)) = Some (PSelection p (c # rest), None)"
    by (cases c) simp_all
next
  show "refineNode x (PSelection p []) = Some (PSelection p [], None)"
    by simp
qed

theorem selection_above_new_table_scan_witness:
  "list_all arityOk (selConditions sampleSelection) \<and>
   refineNode sampleExternals (PSelection sampleSelection [PNewTableScan idleScan []]) =
     Some (PSelection
             \<lparr>selConditions = [ScalarFunction fnGT [Column tName bName, Constant (KindInt64 1)]]\<rparr>
             [PNewTableScan
                \<lparr>ntTable = sampleTable,
                 ntRanges = [\<lparr>LowVal = 5, HighVal = 5\<rparr>],
                 ntAccessCondition =
                   [ScalarFunction fnEQ [Column tName idName, Constant (KindInt64 5)]]\<rparr> []],
           None)"
proof -
  have ok: "list_all arityOk (selConditions sampleSelection)"
    by (simp add: sampleSelection_def enoughArgs_def)
  have pk: "pkNameOf (HasPriKeyFlag sampleExternals) (ntTable idleScan) = idName"
    by (simp add: pkNameOf_def sampleExternals_def idleScan_def sampleTable_def priKeyBit_def)
  have acc: "filter (accessible idName (ntTable idleScan) None 0) (selConditions sampleSelection) =
      [ScalarFunction fnEQ [Column tName idName, Constant (KindInt64 5)]]"
    by (simp add: accessible_def checkerFor_def sampleSelection_def idleScan_def sampleTable_def
        idName_def tName_def bName_def index_at_def)
  have flt: "filter (\<lambda>con. \<not> accessible idName (ntTable idleScan) None 0 con)
        (selConditions sampleSelection) =
      [ScalarFunction fnGT [Column tName bName, Constant (KindInt64 1)]]"
    by (simp add: accessible_def checkerFor_def sampleSelection_def idleScan_def sampleTable_def
        idName_def tName_def bName_def index_at_def)
  have b: "buildNewTableRange sampleExternals idleScan
        [ScalarFunction fnEQ [Column tName idName, Constant (KindInt64 5)]] =
      (\<lparr>ntTable = sampleTable, ntRanges = [\<lparr>LowVal = 5, HighVal = 5\<rparr>],
        ntAccessCondition = [ScalarFunction fnEQ [Column tName idName, Constant (KindInt64 5)]]\<rparr>,
       None)"
    by (simp add: buildNewTableRange_def sampleExternals_def sampleNewBuild_def index_at_def
        pointsOf_def sampleIntersection_def fullRange_def idleScan_def)
  note T = selection_above_new_table_scan [of sampleSelection sampleExternals idleScan "[]" "[]"]
  from T ok obtain q e where
    r: "refineNode sampleExternals (PSelection sampleSelection [PNewTableScan idleScan []]) = Some (q, e)"
    by auto
  with T obtain scan' where
    "buildNewTableRange sampleExternals idleScan
       (filter (accessible (pkNameOf (HasPriKeyFlag sampleExternals) (ntTable idleScan))
          (ntTable idleScan) None 0) (selConditions sampleSelection)) = (scan', e)"
    and "q = PSelection
           (sampleSelection\<lparr>selConditions :=
              filter (\<lambda>con. \<not> accessible (pkNameOf (HasPriKeyFlag sampleExternals) (ntTable idleScan))
                (ntTable idleScan) None 0 con) (selConditions sampleSelection)\<rparr>)
           [PNewTableScan scan' []]"
    by blast
  then have "scan' = \<lparr>ntTable = sampleTable, ntRanges = [\<lparr>LowVal = 5, HighVal = 5\<rparr>],
        ntAccessCondition = [ScalarFunction fnEQ [Column tName idName, Constant (KindInt64 5)]]\<rparr>"
    and "e = None"
    and "q = PSelection
           (sampleSelection\<lparr>selConditions :=
              [ScalarFunction fnGT [Column tName bName, Constant (KindInt64 1)]]\<rparr>)
           [PNewTableScan scan' []]"
    by (simp_all add: pk acc flt b)
  with r have "refineNode sampleExternals (PSelection sampleSelection [PNewTableScan idleScan []]) =
     Some (PSelection
             (sampleSelection\<lparr>selConditions :=
                [ScalarFunction fnGT [Column tName bName, Constant (KindInt64 1)]]\<rparr>)
             [PNewTableScan
                \<lparr>ntTable = sampleTable,
                 ntRanges = [\<lparr>LowVal = 5, HighVal = 5\<rparr>],
                 ntAccessCondition =
                   [ScalarFunction fnEQ [Column tName idName, Constant (KindInt64 5)]]\<rparr> []],
           None)"
    by (simp del: refineNode.simps)
  moreover have "sampleSelection\<lparr>selConditions :=
                [ScalarFunction fnGT [Column tName bName, Constant (KindInt64 1)]]\<rparr> =
      \<lparr>selConditions = [ScalarFunction fnGT [Column tName bName, Constant (KindInt64 1)]]\<rparr>"
    by (simp add: sampleSelection_def)
  ultimately show ?thesis
    using ok by (simp del: refineNode.simps)
qed

text \<open>
  The claim C8 as stated fails for a selection above a \<^verbatim>\<open>TableScan\<close>: the selection
  keeps all four conditions, two of which are accessible on the scan's table, and the
  scan gets the full range.
\<close>

theorem selection_above_table_scan_counterexample:
  "refine sampleExternals (PSelection \<lparr>selConditions = sampleConditions\<rparr> [PTableScan emptyScan []]) =
     Some (PSelection \<lparr>selConditions = sampleConditions\<rparr>
             [PTableScan (emptyScan\<lparr>tsRanges := fullTableRange\<rparr>) []], None) \<and>
   detachConditions (HasPriKeyFlag sampleExternals) sampleConditions (tsTable emptyScan) None 0 =
     Some ([ScalarFunction fnEQ [Column tName idName, Constant (KindInt64 5)],
            ScalarFunction fnLE [Constant (KindInt64 9), Column tName idName]],
           [ScalarFunction fnGT [Column tName bName, Constant (KindInt64 1)],
            ScalarFunction (fnOther ''length'') [Column tName idName]])"
  by (simp add: refine.simps buildTableRange_def emptyScan_def detachConditions_def pkNameOf_def
      sampleExternals_def sampleTable_def priKeyBit_def sampleConditions_def
      idName_def tName_def bName_def index_at_def)

section \<open>Properties of the traversal\<close>

lemma SetChildren_GetChildren: "SetChildren p (GetChildren p) = p"
  by (cases p) simp_all

lemma GetChildren_SetChildren: "GetChildren (SetChildren p cs) = cs"
  by (cases p) simp_all

lemma SetChildren_SetChildren: "SetChildren (SetChildren p cs) cs' = SetChildren p cs'"
  by (cases p) simp_all

lemma sweep_after_error:
  "sweep x (Some e) p = Some (p, Some e)"
  "sweepChildren x (Some e) cs = Some (cs, Some e)"
proof (induction x "Some e" p and x "Some e" cs rule: sweep_sweepChildren.induct)
  case (1 x p)
  then show ?case by (simp add: sweep.simps SetChildren_GetChildren)
next
  case (2 x)
  then show ?case by simp
next
  case (3 x c cs)
  then show ?case by simp
qed

lemma refine_sweep:
  "refine x p = sweep x None p"
  "refineChildren x cs = sweepChildren x None cs"
proof (induction x p and x cs rule: refine_refineChildren.induct)
  case (1 x p)
  then show ?case
    by (simp add: refine.simps sweep.simps split: option.splits prod.splits)
next
  case (2 x)
  then show ?case by simp
next
  case (3 x c cs)
  have r: "refine x c = sweep x None c" by (rule 3(1))
  show ?case
  proof (cases "refine x c")
    case None
    with r show ?thesis by simp
  next
    case (Some res)
    obtain c' st where res: "res = (c', st)" by (cases res)
    from r Some res have s: "sweep x None c = Some (c', st)" by simp
    from Some res have f: "refine x c = Some (c', st)" by simp
    show ?thesis
    proof (cases st)
      case None
      with 3(2) f have "refineChildren x cs = sweepChildren x None cs"
        by simp
      with s f None show ?thesis by simp
    next
      case (Some e)
      with s f show ?thesis
        by (simp add: sweep_after_error)
    qed
  qed
qed

lemma refineChildren_append:
  "refineChildren x xs = Some (xs', None) \<Longrightarrow>
   refineChildren x (xs @ ys) =
     (case refineChildren x ys of None \<Rightarrow> None | Some (ys', r) \<Rightarrow> Some (xs' @ ys', r))"
proof (induction xs arbitrary: xs')
  case Nil
  then show ?case by (simp split: option.splits)
next
  case (Cons c cs)
  from Cons.prems obtain c' cs' where
    c: "refine x c = Some (c', None)" and cs: "refineChildren x cs = Some (cs', None)"
    and xs': "xs' = c' # cs'"
    by (auto split: option.splits)
  from Cons.IH [OF cs] c xs' show ?case
    by (simp split: option.splits)
qed

text \<open>
  C5, as the code has it. \<^verbatim>\<open>Refine\<close> is the post-order walk that refines every node
  until the first error and leaves every later node as it is: children are refined
  before their parent, and once an error has been met the walk changes nothing and
  hands the error on. In particular, when the children before \<open>c\<close> refine without error
  and \<open>c\<close> fails with \<open>e\<close>, the result is \<open>e\<close>, the children after \<open>c\<close> are not
  refined, and neither is the parent. The plan is updated in place: with the error it
  holds the children before \<open>c\<close> refined and \<open>c\<close> as its failed refinement left it.
\<close>

theorem Refine_post_order_abort:
  "Refine x p = sweep x None p \<and>
   (\<forall>e q. sweep x (Some e) q = Some (q, Some e)) \<and>
   (\<forall>xs xs' c c' ys e.
      refineChildren x xs = Some (xs', None) \<and> refine x c = Some (c', Some e) \<longrightarrow>
      Refine x (SetChildren p (xs @ c # ys)) = Some (SetChildren p (xs' @ c' # ys), Some e))"
proof (intro conjI allI impI)
  show "Refine x p = sweep x None p"
    by (simp add: Refine_def refine_sweep)
  show "sweep x (Some e) q = Some (q, Some e)" for e q
    by (rule sweep_after_error)
  fix xs xs' c c' ys e
  assume a: "refineChildren x xs = Some (xs', None) \<and> refine x c = Some (c', Some e)"
  then have "refineChildren x (xs @ c # ys) = Some (xs' @ c' # ys, Some e)"
    by (simp add: refineChildren_append)
  then show "Refine x (SetChildren p (xs @ c # ys)) = Some (SetChildren p (xs' @ c' # ys), Some e)"
    by (simp add: Refine_def refine.simps [of x "SetChildren p (xs @ c # ys)"]
        GetChildren_SetChildren SetChildren_SetChildren)
qed

theorem Refine_post_order_abort_witness:
  "refineChildren sampleExternals [] = Some ([], None) \<and>
   refine sampleExternals (PTableScan failingScan []) =
     Some (PTableScan failingScan [], Some (Error ''unsupported condition'')) \<and>
   Refine sampleExternals (POther [PTableScan failingScan [], PNewTableScan idleScan []]) =
     Some (POther [PTableScan failingScan [], PNewTableScan idleScan []],
           Some (Error ''unsupported condition''))"
proof -
  have f: "refine sampleExternals (PTableScan failingScan []) =
     Some (PTableScan failingScan [], Some (Error ''unsupported condition''))"
    by (simp add: refine.simps buildTableRange_def failingScan_def sampleExternals_def
        sampleBuild_def unsupported_def sampleIntersection_def fullRange_def)
  have n: "refineChildren sampleExternals [] = Some ([], None)"
    by simp
  from Refine_post_order_abort [of sampleExternals "POther []"] n f
  have "Refine sampleExternals (SetChildren (POther []) ([] @ PTableScan failingScan [] # [PNewTableScan idleScan []])) =
      Some (SetChildren (POther []) ([] @ PTableScan failingScan [] # [PNewTableScan idleScan []]),
            Some (Error ''unsupported condition''))"
    by blast
  with n f show ?thesis by simp
qed

text \<open>
  The claim C5 as stated fails in its last clause: when the second child of a node
  fails, \<^verbatim>\<open>Refine\<close> returns the error, and the plan is partially refined. The first
  child, a \<^verbatim>\<open>NewTableScan\<close>, has got the full range, and the failing \<^verbatim>\<open>TableScan\<close> has
  had its ranges overwritten by what its builder produced.
\<close>

theorem Refine_partial_plan_counterexample:
  "Refine sampleExternals
     (POther [PNewTableScan idleScan [],
              PTableScan (failingScan\<lparr>tsRanges := fullTableRange\<rparr>) []]) =
     Some (POther [PNewTableScan (idleScan\<lparr>ntRanges := fullTableRange\<rparr>) [],
                   PTableScan (failingScan\<lparr>tsRanges := []\<rparr>) []],
           Some (Error ''unsupported condition'')) \<and>
   idleScan\<lparr>ntRanges := fullTableRange\<rparr> \<noteq> idleScan \<and>
   failingScan\<lparr>tsRanges := []\<rparr> \<noteq> failingScan\<lparr>tsRanges := fullTableRange\<rparr>"
  by (simp add: Refine_def refine.simps buildTableRange_def failingScan_def idleScan_def
      sampleExternals_def sampleBuild_def unsupported_def sampleIntersection_def
      fullRange_def fullTableRange_def)

end
